theory Spec2Isabelle
  imports Complex_Main
begin

section \<open>JavaScript numbers\<close>

text \<open>
  A JavaScript number is an IEEE 754 binary64 value: not-a-number, an infinity, or a
  finite real. The arithmetic operators compute the exact result and round it to the
  nearest binary64 value, ties to even, overflowing to an infinity; a store into a
  \<open>Float32Array\<close> rounds to the nearest binary32 value in the same way. The sign of
  zero is not modelled. The carrier \<open>Fin\<close> holds any real, so a statement about every
  \<open>number\<close> covers every double.
\<close>

datatype number = NaN | NegInf | PosInf | Fin real

fun isNaN :: "number \<Rightarrow> bool" where
  "isNaN NaN = True"
| "isNaN _ = False"

text \<open>Round to the nearest integer, ties to the even one.\<close>

definition rne :: "real \<Rightarrow> int" where
  "rne y = (let f = \<lfloor>y\<rfloor>
            in if y - of_int f < 1 / 2 then f
               else if 1 / 2 < y - of_int f then f + 1
               else if even f then f else f + 1)"

text \<open>
  Rounding to the format with \<open>p\<close> significant bits and exponents from \<open>emin\<close> to
  \<open>emax\<close>: the value is rounded to a multiple of the spacing of the format at its
  magnitude (the spacing of the subnormal range below \<open>2 powi emin\<close>), and a result of
  magnitude \<open>2 powi (emax + 1)\<close> or more is an infinity.
\<close>

definition round_to :: "nat \<Rightarrow> int \<Rightarrow> int \<Rightarrow> real \<Rightarrow> number" where
  "round_to p emin emax x =
     (if x = 0 then Fin 0
      else let e = max \<lfloor>log 2 \<bar>x\<bar>\<rfloor> emin;
               q = 2 powi (e - int p + 1);
               v = of_int (rne (x / q)) * q
           in if 2 powi (emax + 1) \<le> \<bar>v\<bar> then (if 0 < x then PosInf else NegInf)
              else Fin v)"

definition r64 :: "real \<Rightarrow> number" where
  "r64 = round_to 53 (- 1022) 1023"

definition r32 :: "real \<Rightarrow> number" where
  "r32 = round_to 24 (- 126) 127"

text \<open>A numeric literal of the source denotes the nearest double.\<close>

definition lit :: "real \<Rightarrow> number" where
  "lit x = r64 x"

instantiation number :: "{plus, minus, uminus, times, inverse, ord}"
begin

fun plus_number :: "number \<Rightarrow> number \<Rightarrow> number" where
  "plus_number (Fin a) (Fin b) = r64 (a + b)"
| "plus_number NaN _ = NaN"
| "plus_number _ NaN = NaN"
| "plus_number PosInf NegInf = NaN"
| "plus_number NegInf PosInf = NaN"
| "plus_number PosInf _ = PosInf"
| "plus_number _ PosInf = PosInf"
| "plus_number NegInf _ = NegInf"
| "plus_number _ NegInf = NegInf"

fun uminus_number :: "number \<Rightarrow> number" where
  "uminus_number (Fin a) = Fin (- a)"
| "uminus_number NaN = NaN"
| "uminus_number PosInf = NegInf"
| "uminus_number NegInf = PosInf"

definition minus_number :: "number \<Rightarrow> number \<Rightarrow> number" where
  "minus_number a b = a + (- b)"

fun times_number :: "number \<Rightarrow> number \<Rightarrow> number" where
  "times_number (Fin a) (Fin b) = r64 (a * b)"
| "times_number NaN _ = NaN"
| "times_number _ NaN = NaN"
| "times_number (Fin a) PosInf = (if a = 0 then NaN else if 0 < a then PosInf else NegInf)"
| "times_number (Fin a) NegInf = (if a = 0 then NaN else if 0 < a then NegInf else PosInf)"
| "times_number PosInf (Fin b) = (if b = 0 then NaN else if 0 < b then PosInf else NegInf)"
| "times_number NegInf (Fin b) = (if b = 0 then NaN else if 0 < b then NegInf else PosInf)"
| "times_number PosInf PosInf = PosInf"
| "times_number PosInf NegInf = NegInf"
| "times_number NegInf PosInf = NegInf"
| "times_number NegInf NegInf = PosInf"

fun divide_number :: "number \<Rightarrow> number \<Rightarrow> number" where
  "divide_number (Fin a) (Fin b) =
     (if b = 0 then (if a = 0 then NaN else if 0 < a then PosInf else NegInf)
      else r64 (a / b))"
| "divide_number NaN _ = NaN"
| "divide_number _ NaN = NaN"
| "divide_number (Fin a) PosInf = Fin 0"
| "divide_number (Fin a) NegInf = Fin 0"
| "divide_number PosInf (Fin b) = (if 0 \<le> b then PosInf else NegInf)"
| "divide_number NegInf (Fin b) = (if 0 \<le> b then NegInf else PosInf)"
| "divide_number PosInf PosInf = NaN"
| "divide_number PosInf NegInf = NaN"
| "divide_number NegInf PosInf = NaN"
| "divide_number NegInf NegInf = NaN"

definition inverse_number :: "number \<Rightarrow> number" where
  "inverse_number a = divide (Fin 1) a"

fun less_number :: "number \<Rightarrow> number \<Rightarrow> bool" where
  "less_number (Fin a) (Fin b) = (a < b)"
| "less_number NaN _ = False"
| "less_number _ NaN = False"
| "less_number NegInf NegInf = False"
| "less_number NegInf PosInf = True"
| "less_number NegInf (Fin b) = True"
| "less_number PosInf NegInf = False"
| "less_number PosInf PosInf = False"
| "less_number PosInf (Fin b) = False"
| "less_number (Fin a) PosInf = True"
| "less_number (Fin a) NegInf = False"

definition less_eq_number :: "number \<Rightarrow> number \<Rightarrow> bool" where
  "less_eq_number a b = (a < b \<or> (a = b \<and> \<not> isNaN a))"

instance ..

end

text \<open>\<open>Math.min\<close> of two arguments: \<open>NaN\<close> if either is, else the smaller.\<close>

definition Math_min :: "number \<Rightarrow> number \<Rightarrow> number" where
  "Math_min a b = (if isNaN a \<or> isNaN b then NaN else if a < b then a else b)"

text \<open>\<open>Math.PI\<close> is the double nearest to \<open>pi\<close>.\<close>

definition Math_PI :: number where
  "Math_PI = lit pi"

section \<open>Typed arrays\<close>

text \<open>
  A \<open>Float32Array\<close> has a fixed length. Reading outside it gives \<open>undefined\<close>, which
  every numeric operator and the global \<open>isNaN\<close> convert to \<open>NaN\<close>. A store rounds
  the double to binary32; a store outside the array is ignored, which is what
  \<open>xs[i := v]\<close> does.
\<close>

type_synonym Float32Array = "number list"

fun f32 :: "number \<Rightarrow> number" where
  "f32 (Fin a) = r32 a"
| "f32 v = v"

definition rd :: "Float32Array \<Rightarrow> nat \<Rightarrow> number" where
  "rd a i = (if i < length a then a ! i else NaN)"

definition store :: "Float32Array \<Rightarrow> nat \<Rightarrow> number \<Rightarrow> Float32Array" where
  "store a i v = a[i := f32 v]"

text \<open>
  What the code takes from its host: which array lengths the host is able to allocate,
  and \<open>Math.asin\<close>, whose result the language leaves to the implementation.
\<close>

record host =
  can_allocate :: "nat \<Rightarrow> bool"
  Math_asin :: "number \<Rightarrow> number"

datatype error = RangeError

text \<open>
  \<open>new Float32Array(n)\<close> for an integer \<open>n\<close>: a \<open>RangeError\<close> when \<open>n\<close> is negative or
  the host does not allocate that length, and \<open>n\<close> zeros otherwise.
\<close>

definition new_Float32Array :: "host \<Rightarrow> int \<Rightarrow> error + Float32Array" where
  "new_Float32Array h n =
     (if n < 0 \<or> \<not> can_allocate h (nat n) then Inl RangeError
      else Inr (replicate (nat n) (Fin 0)))"

definition and_then :: "error + 'a \<Rightarrow> ('a \<Rightarrow> error + 'b) \<Rightarrow> error + 'b" where
  "and_then r f = (case r of Inl e \<Rightarrow> Inl e | Inr v \<Rightarrow> f v)"

section \<open>The engine (\<open>engine/ebm.ts\<close>)\<close>

record EBMParams =
  S0 :: number
  A :: number
  B :: number
  D :: number
  iceAlbedo :: number
  oceanAlbedo :: number
  iceThreshold :: number

definition DEFAULT_PARAMS :: EBMParams where
  "DEFAULT_PARAMS = \<lparr> S0 = Fin 1360, A = Fin 210, B = Fin 2, D = lit 0.6,
     iceAlbedo = lit 0.62, oceanAlbedo = lit 0.3, iceThreshold = Fin (- 10) \<rparr>"

text \<open>
  The fields of class \<open>EBM\<close>. The field \<open>size\<close> is \<open>size_n\<close> here and the private
  \<open>_fluxBuffer\<close> is \<open>fluxBuffer\<close>. The arrays are distinct objects, allocated by the
  constructor: the record keeps them apart. A loop index \<open>i\<close> is below an array length,
  so the double \<open>i\<close> is the integer itself.
\<close>

record EBM =
  params :: EBMParams
  size_n :: nat
  lat :: Float32Array
  x :: Float32Array
  T :: Float32Array
  albedo :: Float32Array
  insol :: Float32Array
  ASR :: Float32Array
  OLR :: Float32Array
  transport :: Float32Array
  fluxBuffer :: Float32Array
  time :: number

definition initGrid :: "host \<Rightarrow> EBM \<Rightarrow> EBM" where
  "initGrid h s0 = fold (\<lambda>i s.
       let frac = (Fin (real i) + lit 0.5) / Fin (real (size_n s));
           xVal = Fin (- 1) + Fin 2 * frac
       in s\<lparr> x := store (x s) i xVal,
             lat := store (lat s) i (Math_asin h xVal * (Fin 180 / Math_PI)) \<rparr>)
     [0..<size_n s0] s0"

definition computeInsolation :: "EBM \<Rightarrow> EBM" where
  "computeInsolation s0 =
     (let s2 = - lit 0.482
      in fold (\<lambda>i s.
           let P2 = lit 0.5 * (Fin 3 * rd (x s) i * rd (x s) i - Fin 1)
           in s\<lparr> insol := store (insol s) i ((S0 (params s) / Fin 4) * (Fin 1 + s2 * P2)) \<rparr>)
         [0..<size_n s0] s0)"

definition computeAlbedo :: "EBM \<Rightarrow> EBM" where
  "computeAlbedo s0 = fold (\<lambda>i s.
       s\<lparr> albedo := store (albedo s) i
            (if rd (T s) i < iceThreshold (params s)
             then iceAlbedo (params s) else oceanAlbedo (params s)) \<rparr>)
     [0..<size_n s0] s0"

definition computeTransport :: "EBM \<Rightarrow> EBM" where
  "computeTransport s0 =
     (let dx = Fin 2 / Fin (real (size_n s0));
          D' = D (params s0);
          s1 = fold (\<lambda>i s.
                 let x_interface = Fin (- 1) + Fin (real i) * dx;
                     cos2_interface = Fin 1 - x_interface * x_interface;
                     dT_dx = (rd (T s) i - rd (T s) (i - 1)) / dx
                 in s\<lparr> fluxBuffer := store (fluxBuffer s) i ((- D') * cos2_interface * dT_dx) \<rparr>)
               [1..<size_n s0] s0;
          s2 = s1\<lparr> fluxBuffer := store (fluxBuffer s1) 0 (Fin 0) \<rparr>;
          s3 = s2\<lparr> fluxBuffer := store (fluxBuffer s2) (size_n s2) (Fin 0) \<rparr>
      in fold (\<lambda>i s.
           s\<lparr> transport := store (transport s) i
                ((- (rd (fluxBuffer s) (i + 1) - rd (fluxBuffer s) i)) / dx) \<rparr>)
         [0..<size_n s3] s3)"

definition updateDiagnostics :: "EBM \<Rightarrow> EBM" where
  "updateDiagnostics s0 =
     (let s1 = computeAlbedo s0;
          s2 = fold (\<lambda>i s.
                 s\<lparr> ASR := store (ASR s) i (rd (insol s) i * (Fin 1 - rd (albedo s) i)),
                       OLR := store (OLR s) i (A (params s) + B (params s) * rd (T s) i) \<rparr>)
               [0..<size_n s1] s1
      in computeTransport s2)"

definition initState :: "EBM \<Rightarrow> EBM" where
  "initState s0 =
     updateDiagnostics (fold (\<lambda>i s.
         s\<lparr> T := store (T s) i
              (Fin 15 + Fin 20 * (Fin 1 - Fin 2 * rd (x s) i * rd (x s) i)) \<rparr>)
       [0..<size_n s0] s0)"

text \<open>
  The constructor, for an integer band count: nine allocations in the order of the
  source, each of which may throw, then \<open>initGrid\<close> and \<open>initState\<close>. The constructor
  itself does not look at the band count.
\<close>

definition EBM_constructor :: "host \<Rightarrow> int \<Rightarrow> EBMParams \<Rightarrow> error + EBM" where
  "EBM_constructor h size' params' =
     and_then (new_Float32Array h size') (\<lambda>lat'.
     and_then (new_Float32Array h size') (\<lambda>x'.
     and_then (new_Float32Array h size') (\<lambda>T'.
     and_then (new_Float32Array h size') (\<lambda>albedo'.
     and_then (new_Float32Array h size') (\<lambda>insol'.
     and_then (new_Float32Array h size') (\<lambda>ASR'.
     and_then (new_Float32Array h size') (\<lambda>OLR'.
     and_then (new_Float32Array h size') (\<lambda>transport'.
     and_then (new_Float32Array h (size' + 1)) (\<lambda>fluxBuffer'.
       Inr (initState (initGrid h
         \<lparr> params = params', size_n = nat size', lat = lat', x = x', T = T',
           albedo = albedo', insol = insol', ASR = ASR', OLR = OLR',
           transport = transport', fluxBuffer = fluxBuffer', time = Fin 0 \<rparr>)))))))))))"

subsection \<open>The integrator\<close>

text \<open>
  \<open>step\<close> runs a \<open>while\<close> loop with the local variables \<open>timeRemaining\<close> and
  \<open>stepsTaken\<close>. The loop is \<open>step_loop\<close>; it ends in one of three ways, which
  \<open>exit\<close> records: the loop condition fails, the NaN check returns from \<open>step\<close>, or
  the check on \<open>stepsTaken\<close> breaks out. The list \<open>taken\<close> is a history of the
  sub-steps performed: each entry holds \<open>dt_sub\<close>, the state after the diagnostic refresh
  and the state after the Euler update. It does not influence the computation.
\<close>

datatype loop_exit = Exhausted | NaN_guard | Ceiling

record substep =
  sub_dt :: number
  sub_refreshed :: EBM
  sub_updated :: EBM

record loop_result =
  final :: EBM
  remaining :: number
  steps :: nat
  exit :: loop_exit
  taken :: "substep list"

definition heatCapacity :: number where
  "heatCapacity = Fin 10"

text \<open>The inner \<open>for\<close> loop of \<open>step\<close> ("Simple Euler").\<close>

definition euler_update :: "number \<Rightarrow> EBM \<Rightarrow> EBM" where
  "euler_update dt_sub s0 = fold (\<lambda>i s.
       let netFlux = rd (ASR s) i - rd (OLR s) i + rd (transport s) i
       in s\<lparr> T := store (T s) i (rd (T s) i + (netFlux / heatCapacity) * dt_sub) \<rparr>)
     [0..<size_n s0] s0"

function step_loop :: "number \<Rightarrow> number \<Rightarrow> nat \<Rightarrow> EBM \<Rightarrow> loop_result" where
  "step_loop safeDt timeRemaining stepsTaken s =
     (if lit 0.000001 < timeRemaining then
        (let dt_sub = Math_min timeRemaining safeDt;
             s1 = updateDiagnostics s
         in if stepsTaken mod 100 = 0 \<and> isNaN (rd (T s1) 45) then
              \<lparr> final = s1, remaining = timeRemaining, steps = stepsTaken,
                exit = NaN_guard, taken = [] \<rparr>
            else
              (let s2 = euler_update dt_sub s1;
                   timeRemaining' = timeRemaining - dt_sub;
                   stepsTaken' = stepsTaken + 1;
                   this = \<lparr> sub_dt = dt_sub, sub_refreshed = s1, sub_updated = s2 \<rparr>
               in if 10000 < stepsTaken' then
                    \<lparr> final = s2, remaining = timeRemaining', steps = stepsTaken',
                      exit = Ceiling, taken = [this] \<rparr>
                  else
                    (let r = step_loop safeDt timeRemaining' stepsTaken' s2
                     in r\<lparr> taken := this # taken r \<rparr>)))
      else \<lparr> final = s, remaining = timeRemaining, steps = stepsTaken,
             exit = Exhausted, taken = [] \<rparr>)"
  by pat_completeness auto
termination
  by (relation "measure (\<lambda>(safeDt, timeRemaining, stepsTaken, s). 10001 - stepsTaken)") auto

declare step_loop.simps [simp del]

text \<open>
  What \<open>step\<close> writes to the console. \<open>Math.random()\<close> is the argument \<open>random\<close>.
\<close>

datatype console_entry = Console_error | Console_warn | Console_log

record step_result =
  state :: EBM
  console :: "console_entry list"
  outcome :: loop_exit
  substeps :: "substep list"

definition step :: "number \<Rightarrow> number \<Rightarrow> EBM \<Rightarrow> step_result" where
  "step dt random s =
     (let dx = Fin 2 / Fin (real (size_n s));
          stabilityLimit = (dx * dx) / (Fin 2 * D (params s) + lit 0.001);
          safeDt = stabilityLimit * lit 0.8;
          r = step_loop safeDt dt 0 s
      in if exit r = NaN_guard then
           \<lparr> state = final r, console = [Console_error],
             outcome = exit r, substeps = taken r \<rparr>
         else
           (let s' = (final r)\<lparr> time := time (final r) + dt \<rparr>
            in \<lparr> state = s',
                 console = (if exit r = Ceiling then [Console_warn] else []) @
                           (if random < lit 0.01 then [Console_log] else []),
                 outcome = exit r, substeps = taken r \<rparr>))"

section \<open>Notions used in the statements\<close>

text \<open>The arrays have the lengths the constructor gave them.\<close>

definition wf :: "EBM \<Rightarrow> bool" where
  "wf s \<longleftrightarrow>
     length (lat s) = size_n s \<and> length (x s) = size_n s \<and> length (T s) = size_n s \<and>
     length (albedo s) = size_n s \<and> length (insol s) = size_n s \<and>
     length (ASR s) = size_n s \<and> length (OLR s) = size_n s \<and>
     length (transport s) = size_n s \<and> length (fluxBuffer s) = size_n s + 1"

fun isFinite :: "number \<Rightarrow> bool" where
  "isFinite (Fin a) = True"
| "isFinite _ = False"

fun real_of :: "number \<Rightarrow> real" where
  "real_of (Fin a) = a"
| "real_of _ = 0"

text \<open>
  The array \<open>a\<close> after a loop \<open>for (i = lo; i < hi; i++) a[i] = f i\<close>: the indices in
  range hold the stored values, the others are untouched.
\<close>

definition written :: "nat \<Rightarrow> nat \<Rightarrow> (nat \<Rightarrow> number) \<Rightarrow> Float32Array \<Rightarrow> Float32Array" where
  "written lo hi f a =
     map (\<lambda>k. if lo \<le> k \<and> k < hi then f32 (f k) else a ! k) [0..<length a]"

text \<open>
  In a call of \<open>step\<close> that performed the sub-steps \<open>subs\<close>: the value of
  \<open>timeRemaining\<close> and the engine before sub-step \<open>j\<close> (for \<open>j = length subs\<close>, when
  the loop ended).
\<close>

definition remaining_before :: "number \<Rightarrow> substep list \<Rightarrow> nat \<Rightarrow> number" where
  "remaining_before dt subs j = foldl (-) dt (map sub_dt (take j subs))"

definition engine_before :: "EBM \<Rightarrow> substep list \<Rightarrow> nat \<Rightarrow> EBM" where
  "engine_before s subs j = (if j = 0 then s else sub_updated (subs ! (j - 1)))"

text \<open>The fields as the constructor's allocations leave them, before \<open>initGrid\<close>.\<close>

definition allocated :: "nat \<Rightarrow> EBMParams \<Rightarrow> EBM" where
  "allocated n p =
     \<lparr> params = p, size_n = n, lat = replicate n (Fin 0), x = replicate n (Fin 0),
       T = replicate n (Fin 0), albedo = replicate n (Fin 0), insol = replicate n (Fin 0),
       ASR = replicate n (Fin 0), OLR = replicate n (Fin 0), transport = replicate n (Fin 0),
       fluxBuffer = replicate (n + 1) (Fin 0), time = Fin 0 \<rparr>"

text \<open>The sub-step bound that \<open>step\<close> computes from the band count and \<open>D\<close>.\<close>

definition safeDt_of :: "EBM \<Rightarrow> number" where
  "safeDt_of s =
     ((Fin 2 / Fin (real (size_n s))) * (Fin 2 / Fin (real (size_n s))) /
        (Fin 2 * D (params s) + lit 0.001)) * lit 0.8"

section \<open>Concrete inputs\<close>

text \<open>
  A host that allocates every length below \<open>2 ^ 32\<close> and whose \<open>Math.asin\<close> is correctly
  rounded.
\<close>

definition asin_rounded :: "number \<Rightarrow> number" where
  "asin_rounded v =
     (case v of Fin a \<Rightarrow> if - 1 \<le> a \<and> a \<le> 1 then r64 (arcsin a) else NaN | _ \<Rightarrow> NaN)"

definition sample_host :: host where
  "sample_host = \<lparr> can_allocate = (\<lambda>n. n < 2 ^ 32), Math_asin = asin_rounded \<rparr>"

text \<open>\<open>new EBM(n)\<close> on that host, for the band counts used below.\<close>

definition engine1 :: EBM where
  "engine1 = projr (EBM_constructor sample_host 1 DEFAULT_PARAMS)"

definition engine2 :: EBM where
  "engine2 = projr (EBM_constructor sample_host 2 DEFAULT_PARAMS)"

definition engine3 :: EBM where
  "engine3 = projr (EBM_constructor sample_host 3 DEFAULT_PARAMS)"

definition engine46 :: EBM where
  "engine46 = projr (EBM_constructor sample_host 46 DEFAULT_PARAMS)"

definition engine_2p25 :: EBM where
  "engine_2p25 = projr (EBM_constructor sample_host (2 ^ 25) DEFAULT_PARAMS)"

text \<open>The same with public fields overwritten by the caller.\<close>

definition engine46_NaN_T45 :: EBM where
  "engine46_NaN_T45 = engine46\<lparr> T := (T engine46)[45 := NaN] \<rparr>"

definition engine46_late :: EBM where
  "engine46_late = engine46\<lparr> time := Fin (2 ^ 53) \<rparr>"

definition engine46_NaN_A :: EBM where
  "engine46_NaN_A = projr (EBM_constructor sample_host 46 (DEFAULT_PARAMS\<lparr> A := NaN \<rparr>))"

definition engine2_ramp :: EBM where
  "engine2_ramp = engine2\<lparr> T := [Fin 0, Fin 1] \<rparr>"

definition engine2_cold :: EBM where
  "engine2_cold = engine2\<lparr> T := [Fin (- 10), Fin (- 11)], insol := [Fin 100, Fin 200] \<rparr>"

definition engine2_huge :: EBM where
  "engine2_huge =
     engine2\<lparr> params := DEFAULT_PARAMS\<lparr> D := Fin 2 \<rparr>,
              T := [Fin (2 ^ 127), Fin (- (2 ^ 127))] \<rparr>"

definition engine3_ramp :: EBM where
  "engine3_ramp = engine3\<lparr> T := [Fin 0, Fin 3, Fin 1] \<rparr>"

section \<open>Arithmetic of numbers\<close>

lemma NaN_plus [simp]: "a + NaN = NaN" "NaN + a = NaN"
  by (cases a; simp)+

lemma NaN_minus [simp]: "a - NaN = NaN" "NaN - a = NaN"
  by (simp_all add: minus_number_def)

lemma NaN_times [simp]: "a * NaN = NaN" "NaN * a = NaN"
  by (cases a; simp)+

lemma NaN_divide [simp]: "a / NaN = NaN" "NaN / a = NaN"
  by (cases a; simp)+

lemma Fin_minus [simp]: "Fin a - Fin b = r64 (a - b)"
  by (simp add: minus_number_def)

lemma less_number_irrefl [simp]: "\<not> (a::number) < a"
  by (cases a) simp_all

lemma times_number_commute: "(a::number) * b = b * a"
  by (cases a; cases b) (simp_all add: mult.commute)

lemma isFinite_conv: "isFinite a \<longleftrightarrow> a = Fin (real_of a)"
  by (cases a) simp_all

section \<open>Evaluating a rounding\<close>

text \<open>
  When the binade \<open>e\<close> of \<open>y\<close> is known the rounding is a computation: the spacing
  is \<open>q\<close> and the result is the multiple \<open>m\<close> of \<open>q\<close> nearest to \<open>y\<close>.
\<close>

lemma floor_log2_eq:
  assumes "2 powi e \<le> \<bar>y\<bar>" "\<bar>y\<bar> < 2 powi (e + 1)"
  shows "\<lfloor>log 2 \<bar>y\<bar>\<rfloor> = e"
proof -
  have pos: "0 < \<bar>y\<bar>" using assms(1) by (smt (verit) zero_less_power_int)
  have "2 powr (real_of_int e) \<le> \<bar>y\<bar>" "\<bar>y\<bar> < 2 powr (real_of_int e + 1)"
    using assms powr_real_of_int' [of 2 e] powr_real_of_int' [of 2 "e + 1"] by simp_all
  then show ?thesis using floor_log_eq_powr_iff [of "\<bar>y\<bar>" 2 e] pos by simp
qed

lemma round_to_eval:
  assumes "2 powi e \<le> \<bar>y\<bar>" "\<bar>y\<bar> < 2 powi (e + 1)" "emin \<le> e"
    and "q = 2 powi (e - int p + 1)" and "m = rne (y / q)"
    and "\<bar>of_int m * q\<bar> < 2 powi (emax + 1)"
  shows "round_to p emin emax y = Fin (of_int m * q)"
proof -
  have nz: "y \<noteq> 0" using assms(1) by (smt (verit) zero_less_power_int)
  have "max \<lfloor>log 2 \<bar>y\<bar>\<rfloor> emin = e"
    using floor_log2_eq [OF assms(1,2)] assms(3) by simp
  then show ?thesis using nz assms(4,5,6) by (simp add: round_to_def Let_def)
qed

lemma round_to_overflow:
  assumes "2 powi e \<le> \<bar>y\<bar>" "\<bar>y\<bar> < 2 powi (e + 1)" "emin \<le> e"
    and "q = 2 powi (e - int p + 1)" and "m = rne (y / q)"
    and "2 powi (emax + 1) \<le> \<bar>of_int m * q\<bar>"
  shows "round_to p emin emax y = (if 0 < y then PosInf else NegInf)"
proof -
  have nz: "y \<noteq> 0" using assms(1) by (smt (verit) zero_less_power_int)
  have "max \<lfloor>log 2 \<bar>y\<bar>\<rfloor> emin = e"
    using floor_log2_eq [OF assms(1,2)] assms(3) by simp
  then show ?thesis using nz assms(4,5,6) by (simp add: round_to_def Let_def)
qed

section \<open>Loops as closed forms\<close>

lemma fold_upt_invariant:
  assumes "P lo s"
    and "\<And>i t. lo \<le> i \<Longrightarrow> i < hi \<Longrightarrow> P i t \<Longrightarrow> P (Suc i) (b i t)"
    and "lo \<le> hi"
  shows "P hi (fold b [lo..<hi] s)"
proof -
  have "lo \<le> h \<Longrightarrow> h \<le> hi \<Longrightarrow> P h (fold b [lo..<h] s)" for h
  proof (induction h)
    case 0
    then show ?case using assms(1) by simp
  next
    case (Suc h)
    show ?case
    proof (cases "lo \<le> h")
      case True
      with Suc have "P h (fold b [lo..<h] s)" by simp
      with True Suc.prems show ?thesis by (simp add: assms(2))
    next
      case False
      with Suc.prems have "lo = Suc h" by simp
      then show ?thesis using assms(1) by simp
    qed
  qed
  with assms(3) show ?thesis by simp
qed

lemma written_empty [simp]: "written lo lo f a = a"
  by (rule nth_equalityI) (auto simp: written_def)

lemma written_none: "hi \<le> lo \<Longrightarrow> written lo hi f a = a"
  by (rule nth_equalityI) (auto simp: written_def)

lemma written_step:
  "lo \<le> i \<Longrightarrow> v = f i \<Longrightarrow> store (written lo i f a) i v = written lo (Suc i) f a"
  by (rule nth_equalityI) (auto simp: written_def store_def nth_list_update less_Suc_eq)

lemma length_written [simp]: "length (written lo hi f a) = length a"
  by (simp add: written_def)

lemma nth_written [simp]:
  "k < length a \<Longrightarrow> written lo hi f a ! k = (if lo \<le> k \<and> k < hi then f32 (f k) else a ! k)"
  by (simp add: written_def)

lemma rd_nth: "i < length a \<Longrightarrow> rd a i = a ! i"
  by (simp add: rd_def)

lemma rd_written:
  "rd (written lo hi f a) k =
     (if lo \<le> k \<and> k < hi \<and> k < length a then f32 (f k) else rd a k)"
  by (simp add: rd_def)

lemma computeAlbedo_eq:
  "computeAlbedo s = s\<lparr> albedo := written 0 (size_n s)
      (\<lambda>i. if rd (T s) i < iceThreshold (params s) then iceAlbedo (params s) else oceanAlbedo (params s))
      (albedo s) \<rparr>"
  unfolding computeAlbedo_def
  by (rule fold_upt_invariant [where P = "\<lambda>i t. t = s\<lparr> albedo := written 0 i
      (\<lambda>i. if rd (T s) i < iceThreshold (params s) then iceAlbedo (params s) else oceanAlbedo (params s))
      (albedo s) \<rparr>"]) (simp_all add: written_step split del: if_split cong: if_cong)

lemma initGrid_eq:
  "initGrid h s = s\<lparr>
     x := written 0 (size_n s)
       (\<lambda>i. Fin (- 1) + Fin 2 * ((Fin (real i) + lit 0.5) / Fin (real (size_n s)))) (x s),
     lat := written 0 (size_n s)
       (\<lambda>i. Math_asin h (Fin (- 1) + Fin 2 * ((Fin (real i) + lit 0.5) / Fin (real (size_n s))))
              * (Fin 180 / Math_PI)) (lat s) \<rparr>"
  unfolding initGrid_def
  by (rule fold_upt_invariant [where P = "\<lambda>i t. t = s\<lparr>
     x := written 0 i
       (\<lambda>i. Fin (- 1) + Fin 2 * ((Fin (real i) + lit 0.5) / Fin (real (size_n s)))) (x s),
     lat := written 0 i
       (\<lambda>i. Math_asin h (Fin (- 1) + Fin 2 * ((Fin (real i) + lit 0.5) / Fin (real (size_n s))))
              * (Fin 180 / Math_PI)) (lat s) \<rparr>"])
    (simp_all add: written_step Let_def)

lemma computeInsolation_eq:
  "computeInsolation s = s\<lparr> insol := written 0 (size_n s)
      (\<lambda>i. (S0 (params s) / Fin 4) *
           (Fin 1 + (- lit 0.482) * (lit 0.5 * (Fin 3 * rd (x s) i * rd (x s) i - Fin 1))))
      (insol s) \<rparr>"
  unfolding computeInsolation_def Let_def
  by (rule fold_upt_invariant [where P = "\<lambda>i t. t = s\<lparr> insol := written 0 i
      (\<lambda>i. (S0 (params s) / Fin 4) *
           (Fin 1 + (- lit 0.482) * (lit 0.5 * (Fin 3 * rd (x s) i * rd (x s) i - Fin 1))))
      (insol s) \<rparr>"])
    (simp_all add: written_step)

lemma initState_loop_eq:
  "fold (\<lambda>i s. s\<lparr> T := store (T s) i (Fin 15 + Fin 20 * (Fin 1 - Fin 2 * rd (x s) i * rd (x s) i)) \<rparr>)
       [0..<n] s
   = s\<lparr> T := written 0 n
        (\<lambda>i. Fin 15 + Fin 20 * (Fin 1 - Fin 2 * rd (x s) i * rd (x s) i)) (T s) \<rparr>"
  by (rule fold_upt_invariant [where P = "\<lambda>i t. t = s\<lparr> T := written 0 i
        (\<lambda>i. Fin 15 + Fin 20 * (Fin 1 - Fin 2 * rd (x s) i * rd (x s) i)) (T s) \<rparr>"])
    (simp_all add: written_step)

lemma euler_update_eq:
  "euler_update dt_sub s = s\<lparr> T := written 0 (size_n s)
      (\<lambda>i. rd (T s) i +
           ((rd (ASR s) i - rd (OLR s) i + rd (transport s) i) / heatCapacity) * dt_sub)
      (T s) \<rparr>"
  unfolding euler_update_def Let_def
  by (rule fold_upt_invariant [where P = "\<lambda>i t. t = s\<lparr> T := written 0 i
      (\<lambda>i. rd (T s) i +
           ((rd (ASR s) i - rd (OLR s) i + rd (transport s) i) / heatCapacity) * dt_sub)
      (T s) \<rparr>"])
    (simp_all add: written_step rd_written)

lemma radiation_loop_eq:
  "fold (\<lambda>i s. s\<lparr> ASR := store (ASR s) i (rd (insol s) i * (Fin 1 - rd (albedo s) i)),
                    OLR := store (OLR s) i (A (params s) + B (params s) * rd (T s) i) \<rparr>)
       [0..<n] s
   = s\<lparr> ASR := written 0 n (\<lambda>i. rd (insol s) i * (Fin 1 - rd (albedo s) i)) (ASR s),
         OLR := written 0 n (\<lambda>i. A (params s) + B (params s) * rd (T s) i) (OLR s) \<rparr>"
  by (rule fold_upt_invariant [where P = "\<lambda>i t. t =
       s\<lparr> ASR := written 0 i (\<lambda>i. rd (insol s) i * (Fin 1 - rd (albedo s) i)) (ASR s),
         OLR := written 0 i (\<lambda>i. A (params s) + B (params s) * rd (T s) i) (OLR s) \<rparr>"])
    (simp_all add: written_step)

lemma flux_loop_eq:
  assumes "\<And>t fb i. f (t\<lparr> fluxBuffer := fb \<rparr>) i = f t i"
  shows "fold (\<lambda>i s. s\<lparr> fluxBuffer := store (fluxBuffer s) i (f s i) \<rparr>) [Suc 0..<n] s
   = s\<lparr> fluxBuffer := written (Suc 0) n (f s) (fluxBuffer s) \<rparr>"
proof (cases "Suc 0 \<le> n")
  case True
  then show ?thesis
    by (intro fold_upt_invariant [where P = "\<lambda>i t. t =
         s\<lparr> fluxBuffer := written (Suc 0) i (f s) (fluxBuffer s) \<rparr>"])
      (simp_all add: written_step assms)
next
  case False
  then show ?thesis by (simp add: written_none)
qed

lemma transport_loop_eq:
  assumes "\<And>t tr i. g (t\<lparr> transport := tr \<rparr>) i = g t i"
  shows "fold (\<lambda>i s. s\<lparr> transport := store (transport s) i (g s i) \<rparr>) [0..<n] s
   = s\<lparr> transport := written 0 n (g s) (transport s) \<rparr>"
  by (rule fold_upt_invariant [where P = "\<lambda>i t. t =
       s\<lparr> transport := written 0 i (g s) (transport s) \<rparr>"])
    (simp_all add: written_step assms)

section \<open>What each operation changes\<close>

lemma f32_zero [simp]: "f32 (Fin 0) = Fin 0"
  by (simp add: r32_def round_to_def)

lemma length_store [simp]: "length (store a i v) = length a"
  by (simp add: store_def)

lemma computeTransport_eq:
  "computeTransport s =
     (let n = size_n s;
          dx = Fin 2 / Fin (real n);
          fl = store (store (written 1 n (\<lambda>i. (- D (params s)) *
                   (Fin 1 - (Fin (- 1) + Fin (real i) * dx) * (Fin (- 1) + Fin (real i) * dx)) *
                   ((rd (T s) i - rd (T s) (i - 1)) / dx)) (fluxBuffer s)) 0 (Fin 0)) n (Fin 0)
      in s\<lparr> fluxBuffer := fl,
            transport := written 0 n (\<lambda>i. (- (rd fl (i + 1) - rd fl i)) / dx) (transport s) \<rparr>)"
  unfolding computeTransport_def Let_def
  by (simp add: flux_loop_eq transport_loop_eq del: divide_number.simps)

lemma updateDiagnostics_eq:
  "updateDiagnostics s =
     computeTransport (s\<lparr>
       albedo := written 0 (size_n s)
         (\<lambda>i. if rd (T s) i < iceThreshold (params s)
              then iceAlbedo (params s) else oceanAlbedo (params s)) (albedo s),
       ASR := written 0 (size_n s)
         (\<lambda>i. rd (insol s) i * (Fin 1 - rd (written 0 (size_n s)
           (\<lambda>i. if rd (T s) i < iceThreshold (params s)
              then iceAlbedo (params s) else oceanAlbedo (params s)) (albedo s)) i)) (ASR s),
       OLR := written 0 (size_n s) (\<lambda>i. A (params s) + B (params s) * rd (T s) i) (OLR s) \<rparr>)"
  unfolding updateDiagnostics_def Let_def
  by (simp add: radiation_loop_eq computeAlbedo_eq)

lemma computeTransport_frame [simp]:
  "params (computeTransport s) = params s" "size_n (computeTransport s) = size_n s"
  "lat (computeTransport s) = lat s" "x (computeTransport s) = x s"
  "T (computeTransport s) = T s" "albedo (computeTransport s) = albedo s"
  "insol (computeTransport s) = insol s" "ASR (computeTransport s) = ASR s"
  "OLR (computeTransport s) = OLR s" "time (computeTransport s) = time s"
  "length (transport (computeTransport s)) = length (transport s)"
  "length (fluxBuffer (computeTransport s)) = length (fluxBuffer s)"
  by (simp_all add: computeTransport_eq Let_def)

lemma updateDiagnostics_frame [simp]:
  "params (updateDiagnostics s) = params s" "size_n (updateDiagnostics s) = size_n s"
  "lat (updateDiagnostics s) = lat s" "x (updateDiagnostics s) = x s"
  "T (updateDiagnostics s) = T s"
  "insol (updateDiagnostics s) = insol s" "time (updateDiagnostics s) = time s"
  "length (albedo (updateDiagnostics s)) = length (albedo s)"
  "length (ASR (updateDiagnostics s)) = length (ASR s)"
  "length (OLR (updateDiagnostics s)) = length (OLR s)"
  "length (transport (updateDiagnostics s)) = length (transport s)"
  "length (fluxBuffer (updateDiagnostics s)) = length (fluxBuffer s)"
  by (simp_all add: updateDiagnostics_eq)

lemma euler_update_frame [simp]:
  "params (euler_update d s) = params s" "size_n (euler_update d s) = size_n s"
  "lat (euler_update d s) = lat s" "x (euler_update d s) = x s"
  "albedo (euler_update d s) = albedo s"
  "insol (euler_update d s) = insol s" "ASR (euler_update d s) = ASR s"
  "OLR (euler_update d s) = OLR s" "transport (euler_update d s) = transport s"
  "fluxBuffer (euler_update d s) = fluxBuffer s" "time (euler_update d s) = time s"
  "length (T (euler_update d s)) = length (T s)"
  by (simp_all add: euler_update_eq)

lemma wf_updateDiagnostics [simp]: "wf (updateDiagnostics s) = wf s"
  by (simp add: wf_def)

lemma wf_euler_update [simp]: "wf (euler_update d s) = wf s"
  by (simp add: wf_def)

lemma initState_eq:
  "initState s = updateDiagnostics (s\<lparr> T := written 0 (size_n s)
        (\<lambda>i. Fin 15 + Fin 20 * (Fin 1 - Fin 2 * rd (x s) i * rd (x s) i)) (T s) \<rparr>)"
  by (simp add: initState_def initState_loop_eq)

lemma initGrid_frame [simp]:
  "params (initGrid h s) = params s" "size_n (initGrid h s) = size_n s"
  "T (initGrid h s) = T s" "time (initGrid h s) = time s" "insol (initGrid h s) = insol s"
  by (simp_all add: initGrid_eq)

lemma initState_frame [simp]:
  "params (initState s) = params s" "size_n (initState s) = size_n s"
  "time (initState s) = time s" "insol (initState s) = insol s"
  "x (initState s) = x s" "lat (initState s) = lat s"
  by (simp_all add: initState_eq)

lemma wf_initGrid [simp]: "wf (initGrid h s) = wf s"
  by (simp add: wf_def initGrid_eq)

lemma wf_initState [simp]: "wf (initState s) = wf s"
  by (simp add: initState_eq) (simp add: wf_def)

lemma updateDiagnostics_albedo:
  "albedo (updateDiagnostics s) = written 0 (size_n s)
     (\<lambda>i. if rd (T s) i < iceThreshold (params s)
          then iceAlbedo (params s) else oceanAlbedo (params s)) (albedo s)"
  by (simp add: updateDiagnostics_eq)

lemma updateDiagnostics_ASR:
  "ASR (updateDiagnostics s) = written 0 (size_n s)
     (\<lambda>i. rd (insol s) i * (Fin 1 - rd (albedo (updateDiagnostics s)) i)) (ASR s)"
  by (simp add: updateDiagnostics_eq)

lemma updateDiagnostics_OLR:
  "OLR (updateDiagnostics s) = written 0 (size_n s)
     (\<lambda>i. A (params s) + B (params s) * rd (T s) i) (OLR s)"
  by (simp add: updateDiagnostics_eq)

section \<open>The loop of \<open>step\<close>, case by case\<close>

lemma step_loop_exhausted:
  "\<not> lit 0.000001 < rem \<Longrightarrow>
   step_loop q rem k s =
     \<lparr> final = s, remaining = rem, steps = k, exit = Exhausted, taken = [] \<rparr>"
  by (subst step_loop.simps) simp

lemma step_loop_NaN_guard:
  "lit 0.000001 < rem \<Longrightarrow> k mod 100 = 0 \<Longrightarrow> isNaN (rd (T s) 45) \<Longrightarrow>
   step_loop q rem k s =
     \<lparr> final = updateDiagnostics s, remaining = rem, steps = k,
       exit = NaN_guard, taken = [] \<rparr>"
  by (subst step_loop.simps) simp

lemma step_loop_ceiling:
  "lit 0.000001 < rem \<Longrightarrow> \<not> (k mod 100 = 0 \<and> isNaN (rd (T s) 45)) \<Longrightarrow> 10000 \<le> k \<Longrightarrow>
   step_loop q rem k s =
     \<lparr> final = euler_update (Math_min rem q) (updateDiagnostics s),
       remaining = rem - Math_min rem q, steps = k + 1, exit = Ceiling,
       taken = [\<lparr> sub_dt = Math_min rem q, sub_refreshed = updateDiagnostics s,
                 sub_updated = euler_update (Math_min rem q) (updateDiagnostics s) \<rparr>] \<rparr>"
  by (subst step_loop.simps) (auto simp: Let_def)

lemma step_loop_continue:
  "lit 0.000001 < rem \<Longrightarrow> \<not> (k mod 100 = 0 \<and> isNaN (rd (T s) 45)) \<Longrightarrow> k < 10000 \<Longrightarrow>
   step_loop q rem k s =
     (step_loop q (rem - Math_min rem q) (k + 1)
        (euler_update (Math_min rem q) (updateDiagnostics s)))
     \<lparr> taken :=
         \<lparr> sub_dt = Math_min rem q, sub_refreshed = updateDiagnostics s,
           sub_updated = euler_update (Math_min rem q) (updateDiagnostics s) \<rparr> #
         taken (step_loop q (rem - Math_min rem q) (k + 1)
           (euler_update (Math_min rem q) (updateDiagnostics s))) \<rparr>"
  by (subst step_loop.simps) (auto simp: Let_def)

lemma step_loop_cases [case_names exhausted guard ceiling continue]:
  assumes "\<not> lit 0.000001 < rem \<Longrightarrow> P"
    and "lit 0.000001 < rem \<Longrightarrow> k mod 100 = (0::nat) \<Longrightarrow> isNaN (rd (T s) 45) \<Longrightarrow> P"
    and "lit 0.000001 < rem \<Longrightarrow> \<not> (k mod 100 = 0 \<and> isNaN (rd (T s) 45)) \<Longrightarrow> 10000 \<le> k \<Longrightarrow> P"
    and "lit 0.000001 < rem \<Longrightarrow> \<not> (k mod 100 = 0 \<and> isNaN (rd (T s) 45)) \<Longrightarrow> k < 10000 \<Longrightarrow> P"
  shows P
  using assms by (cases "k < (10000::nat)") auto

lemma step_loop_insol:
  "insol (final (step_loop q rem k s)) = insol s \<and>
   (\<forall>e \<in> set (taken (step_loop q rem k s)).
      insol (sub_refreshed e) = insol s \<and> insol (sub_updated e) = insol s)"
proof (induction q rem k s rule: step_loop.induct)
  case (1 safeDt timeRemaining stepsTaken s)
  then show ?case
    by (subst (1 2) step_loop.simps) (simp add: Let_def)
qed

lemma step_loop_frame:
  "time (final (step_loop q rem k s)) = time s \<and> params (final (step_loop q rem k s)) = params s \<and>
   size_n (final (step_loop q rem k s)) = size_n s \<and> wf (final (step_loop q rem k s)) = wf s"
proof (induction q rem k s rule: step_loop.induct)
  case (1 safeDt timeRemaining stepsTaken s)
  then show ?case
    by (subst (1 2 3 4) step_loop.simps) (simp add: Let_def)
qed

lemma engine_before_0 [simp]: "engine_before s es 0 = s"
  by (simp add: engine_before_def)

lemma engine_before_Cons [simp]:
  "engine_before s (e # es) (Suc j) = engine_before (sub_updated e) es j"
  by (cases j) (simp_all add: engine_before_def)

lemma remaining_before_0 [simp]: "remaining_before rem es 0 = rem"
  by (simp add: remaining_before_def)

lemma remaining_before_Cons [simp]:
  "remaining_before rem (e # es) (Suc j) = remaining_before (rem - sub_dt e) es j"
  by (simp add: remaining_before_def)



section \<open>What \<open>step\<close> returns\<close>

lemma step_unfold:
  "step dt random s =
     (if exit (step_loop (safeDt_of s) dt 0 s) = NaN_guard
      then \<lparr> state = final (step_loop (safeDt_of s) dt 0 s), console = [Console_error],
             outcome = NaN_guard, substeps = taken (step_loop (safeDt_of s) dt 0 s) \<rparr>
      else \<lparr> state = (final (step_loop (safeDt_of s) dt 0 s))\<lparr> time := time s + dt \<rparr>,
             console = (if exit (step_loop (safeDt_of s) dt 0 s) = Ceiling
                        then [Console_warn] else []) @
                       (if random < lit 0.01 then [Console_log] else []),
             outcome = exit (step_loop (safeDt_of s) dt 0 s),
             substeps = taken (step_loop (safeDt_of s) dt 0 s) \<rparr>)"
  by (simp add: step_def safeDt_of_def Let_def step_loop_frame)

lemma step_substeps:
  "substeps (step dt random s) = taken (step_loop (safeDt_of s) dt 0 s)"
  "outcome (step dt random s) = exit (step_loop (safeDt_of s) dt 0 s)"
  by (simp_all add: step_unfold)




lemma step_console:
  "console (step dt random s) =
     (if outcome (step dt random s) = NaN_guard then [Console_error]
      else (if outcome (step dt random s) = Ceiling then [Console_warn] else []) @
           (if random < lit 0.01 then [Console_log] else []))"
  by (simp add: step_unfold)

lemma step_time:
  "time (state (step dt random s)) =
     (if outcome (step dt random s) = NaN_guard then time s else time s + dt)"
  by (simp add: step_unfold step_loop_frame)

lemma step_insol:
  "insol (state (step dt random s)) = insol s"
  "e \<in> set (substeps (step dt random s)) \<Longrightarrow>
     insol (sub_refreshed e) = insol s \<and> insol (sub_updated e) = insol s"
proof -
  note l = step_loop_insol [of "safeDt_of s" dt 0 s]
  from l show "insol (state (step dt random s)) = insol s"
    by (simp add: step_unfold)
  from l show "insol (sub_refreshed e) = insol s \<and> insol (sub_updated e) = insol s"
    if "e \<in> set (substeps (step dt random s))"
    using that by (simp add: step_substeps)
qed

lemma step_NaN_guard:
  assumes "lit 0.000001 < dt" "isNaN (rd (T s) 45)"
  shows "step dt random s =
    \<lparr> state = updateDiagnostics s, console = [Console_error], outcome = NaN_guard,
      substeps = [] \<rparr>"
  using assms by (simp add: step_unfold step_loop_NaN_guard)

lemma step_too_small:
  assumes "\<not> lit 0.000001 < dt"
  shows "step dt random s =
    \<lparr> state = s\<lparr> time := time s + dt \<rparr>,
      console = (if random < lit 0.01 then [Console_log] else []),
      outcome = Exhausted, substeps = [] \<rparr>"
  using assms by (simp add: step_unfold step_loop_exhausted)

section \<open>The constructor\<close>

lemma constructor_eq:
  "EBM_constructor h n p =
     (if 0 \<le> n \<and> can_allocate h (nat n) \<and> can_allocate h (nat n + 1)
      then Inr (initState (initGrid h (allocated (nat n) p)))
      else Inl RangeError)"
  by (auto simp: EBM_constructor_def new_Float32Array_def and_then_def allocated_def
        nat_add_distrib)

lemma wf_allocated [simp]: "wf (allocated n p)"
  by (simp add: wf_def allocated_def)

lemma allocated_fields [simp]:
  "size_n (allocated n p) = n" "params (allocated n p) = p" "time (allocated n p) = Fin 0"
  "insol (allocated n p) = replicate n (Fin 0)" "T (allocated n p) = replicate n (Fin 0)"
  "x (allocated n p) = replicate n (Fin 0)" "lat (allocated n p) = replicate n (Fin 0)"
  by (simp_all add: allocated_def)

lemma constructor_fields:
  assumes "EBM_constructor h n p = Inr s"
  shows "wf s" "size_n s = nat n" "params s = p" "time s = Fin 0" "0 \<le> n"
    "insol s = replicate (nat n) (Fin 0)"
    "x s = written 0 (nat n)
       (\<lambda>i. Fin (- 1) + Fin 2 * ((Fin (real i) + lit 0.5) / Fin (real (nat n))))
       (replicate (nat n) (Fin 0))"
    "lat s = written 0 (nat n)
       (\<lambda>i. Math_asin h (Fin (- 1) + Fin 2 * ((Fin (real i) + lit 0.5) / Fin (real (nat n)))) *
            (Fin 180 / Math_PI))
       (replicate (nat n) (Fin 0))"
    "T s = written 0 (nat n)
       (\<lambda>i. Fin 15 + Fin 20 * (Fin 1 - Fin 2 * rd (x s) i * rd (x s) i))
       (replicate (nat n) (Fin 0))"
proof -
  from assms show n: "0 \<le> n"
    by (auto simp: constructor_eq split: if_splits)
  from assms have s: "s = initState (initGrid h (allocated (nat n) p))"
    by (auto simp: constructor_eq split: if_splits)
  show "wf s" "size_n s = nat n" "params s = p" "time s = Fin 0"
    "insol s = replicate (nat n) (Fin 0)"
    by (simp_all add: s)
  show "x s = written 0 (nat n)
       (\<lambda>i. Fin (- 1) + Fin 2 * ((Fin (real i) + lit 0.5) / Fin (real (nat n))))
       (replicate (nat n) (Fin 0))"
    by (simp add: s initGrid_eq)
  show "lat s = written 0 (nat n)
       (\<lambda>i. Math_asin h (Fin (- 1) + Fin 2 * ((Fin (real i) + lit 0.5) / Fin (real (nat n)))) *
            (Fin 180 / Math_PI))
       (replicate (nat n) (Fin 0))"
    by (simp add: s initGrid_eq)
  show "T s = written 0 (nat n)
       (\<lambda>i. Fin 15 + Fin 20 * (Fin 1 - Fin 2 * rd (x s) i * rd (x s) i))
       (replicate (nat n) (Fin 0))"
    by (simp add: s initState_eq)
qed

lemma sample_host_allocates [simp]: "can_allocate sample_host n \<longleftrightarrow> n < 2 ^ 32"
  by (simp add: sample_host_def)

lemma engines_constructed:
  "EBM_constructor sample_host 1 DEFAULT_PARAMS = Inr engine1"
  "EBM_constructor sample_host 2 DEFAULT_PARAMS = Inr engine2"
  "EBM_constructor sample_host 3 DEFAULT_PARAMS = Inr engine3"
  "EBM_constructor sample_host 46 DEFAULT_PARAMS = Inr engine46"
  "EBM_constructor sample_host (2 ^ 25) DEFAULT_PARAMS = Inr engine_2p25"
  "EBM_constructor sample_host 46 (DEFAULT_PARAMS\<lparr> A := NaN \<rparr>) = Inr engine46_NaN_A"
  by (simp_all add: constructor_eq engine1_def engine2_def engine3_def engine46_def
        engine_2p25_def engine46_NaN_A_def)

section \<open>Roundings that the concrete inputs need\<close>

text \<open>
  Each lemma is one operation of the code on concrete doubles, or one store into a
  \<open>Float32Array\<close>, with the binade and the multiple of the spacing written out. With
  the defining equations \<open>op_simps\<close> removed, the simplifier evaluates an expression of
  the code by these lemmas.
\<close>

lemmas op_simps = plus_number.simps(1) times_number.simps(1) divide_number.simps(1) Fin_minus f32.simps(1)

lemma rnd_1: "lit (1 / 2) = Fin (1 / 2)"
proof -
  have "r64 ((1 / 2)) = Fin (1 / 2)"
    unfolding r64_def
    by (rule trans [OF round_to_eval [where e = "-1" and m = "4503599627370496" and q = "1 / 2 ^ 53"]])
       (simp_all add: rne_def Let_def)
  then show ?thesis by (simp add: lit_def)
qed

lemma rnd_2: "lit (3 / 5) = Fin (5404319552844595 / 9007199254740992)"
proof -
  have "r64 ((3 / 5)) = Fin (5404319552844595 / 9007199254740992)"
    unfolding r64_def
    by (rule trans [OF round_to_eval [where e = "-1" and m = "5404319552844595" and q = "1 / 2 ^ 53"]])
       (simp_all add: rne_def Let_def)
  then show ?thesis by (simp add: lit_def)
qed

lemma rnd_3: "lit (31 / 50) = Fin (5584463537939415 / 9007199254740992)"
proof -
  have "r64 ((31 / 50)) = Fin (5584463537939415 / 9007199254740992)"
    unfolding r64_def
    by (rule trans [OF round_to_eval [where e = "-1" and m = "5584463537939415" and q = "1 / 2 ^ 53"]])
       (simp_all add: rne_def Let_def)
  then show ?thesis by (simp add: lit_def)
qed

lemma rnd_4: "lit (3 / 10) = Fin (5404319552844595 / 18014398509481984)"
proof -
  have "r64 ((3 / 10)) = Fin (5404319552844595 / 18014398509481984)"
    unfolding r64_def
    by (rule trans [OF round_to_eval [where e = "-2" and m = "5404319552844595" and q = "1 / 2 ^ 54"]])
       (simp_all add: rne_def Let_def)
  then show ?thesis by (simp add: lit_def)
qed

lemma rnd_5: "lit (1 / 1000) = Fin (1152921504606847 / 1152921504606846976)"
proof -
  have "r64 ((1 / 1000)) = Fin (1152921504606847 / 1152921504606846976)"
    unfolding r64_def
    by (rule trans [OF round_to_eval [where e = "-10" and m = "4611686018427388" and q = "1 / 2 ^ 62"]])
       (simp_all add: rne_def Let_def)
  then show ?thesis by (simp add: lit_def)
qed

lemma rnd_6: "lit (4 / 5) = Fin (3602879701896397 / 4503599627370496)"
proof -
  have "r64 ((4 / 5)) = Fin (3602879701896397 / 4503599627370496)"
    unfolding r64_def
    by (rule trans [OF round_to_eval [where e = "-1" and m = "7205759403792794" and q = "1 / 2 ^ 53"]])
       (simp_all add: rne_def Let_def)
  then show ?thesis by (simp add: lit_def)
qed

lemma rnd_7: "lit (1 / 1000000) = Fin (4722366482869645 / 4722366482869645213696)"
proof -
  have "r64 ((1 / 1000000)) = Fin (4722366482869645 / 4722366482869645213696)"
    unfolding r64_def
    by (rule trans [OF round_to_eval [where e = "-20" and m = "4722366482869645" and q = "1 / 2 ^ 72"]])
       (simp_all add: rne_def Let_def)
  then show ?thesis by (simp add: lit_def)
qed

lemma rnd_8: "lit (1 / 100) = Fin (5764607523034235 / 576460752303423488)"
proof -
  have "r64 ((1 / 100)) = Fin (5764607523034235 / 576460752303423488)"
    unfolding r64_def
    by (rule trans [OF round_to_eval [where e = "-7" and m = "5764607523034235" and q = "1 / 2 ^ 59"]])
       (simp_all add: rne_def Let_def)
  then show ?thesis by (simp add: lit_def)
qed

lemma rnd_9: "lit (1 / 500) = Fin (1152921504606847 / 576460752303423488)"
proof -
  have "r64 ((1 / 500)) = Fin (1152921504606847 / 576460752303423488)"
    unfolding r64_def
    by (rule trans [OF round_to_eval [where e = "-9" and m = "4611686018427388" and q = "1 / 2 ^ 61"]])
       (simp_all add: rne_def Let_def)
  then show ?thesis by (simp add: lit_def)
qed

lemma rnd_10: "lit (12597 / 10000000) = Fin (5809340877412981 / 4611686018427387904)"
proof -
  have "r64 ((12597 / 10000000)) = Fin (5809340877412981 / 4611686018427387904)"
    unfolding r64_def
    by (rule trans [OF round_to_eval [where e = "-10" and m = "5809340877412981" and q = "1 / 2 ^ 62"]])
       (simp_all add: rne_def Let_def)
  then show ?thesis by (simp add: lit_def)
qed

lemma rnd_11: "lit (1 / 10000000) = Fin (944473296573929 / 9444732965739290427392)"
proof -
  have "r64 ((1 / 10000000)) = Fin (944473296573929 / 9444732965739290427392)"
    unfolding r64_def
    by (rule trans [OF round_to_eval [where e = "-24" and m = "7555786372591432" and q = "1 / 2 ^ 76"]])
       (simp_all add: rne_def Let_def)
  then show ?thesis by (simp add: lit_def)
qed

lemma rnd_12: "Fin 45 + Fin (1 / 2) = Fin (91 / 2)"
proof -
  have "r64 (45 + (1 / 2)) = Fin (91 / 2)"
    unfolding r64_def
    by (rule trans [OF round_to_eval [where e = "5" and m = "6403555720167424" and q = "1 / 2 ^ 47"]])
       (simp_all add: rne_def Let_def)
  then show ?thesis by (simp add: lit_def)
qed

lemma rnd_13: "Fin (91 / 2) / Fin 46 = Fin (4454647457507773 / 4503599627370496)"
proof -
  have "r64 ((91 / 2) / 46) = Fin (4454647457507773 / 4503599627370496)"
    unfolding r64_def
    by (rule trans [OF round_to_eval [where e = "-1" and m = "8909294915015546" and q = "1 / 2 ^ 53"]])
       (simp_all add: rne_def Let_def)
  then show ?thesis by (simp add: lit_def)
qed

lemma rnd_14: "Fin 2 * Fin (4454647457507773 / 4503599627370496) = Fin (4454647457507773 / 2251799813685248)"
proof -
  have "r64 (2 * (4454647457507773 / 4503599627370496)) = Fin (4454647457507773 / 2251799813685248)"
    unfolding r64_def
    by (rule trans [OF round_to_eval [where e = "0" and m = "8909294915015546" and q = "1 / 2 ^ 52"]])
       (simp_all add: rne_def Let_def)
  then show ?thesis by (simp add: lit_def)
qed

lemma rnd_15: "Fin (- 1) + Fin (4454647457507773 / 2251799813685248) = Fin (2202847643822525 / 2251799813685248)"
proof -
  have "r64 ((- 1) + (4454647457507773 / 2251799813685248)) = Fin (2202847643822525 / 2251799813685248)"
    unfolding r64_def
    by (rule trans [OF round_to_eval [where e = "-1" and m = "8811390575290100" and q = "1 / 2 ^ 53"]])
       (simp_all add: rne_def Let_def)
  then show ?thesis by (simp add: lit_def)
qed

lemma rnd_16: "f32 (Fin (2202847643822525 / 2251799813685248)) = Fin (8206247 / 8388608)"
proof -
  have "r32 ((2202847643822525 / 2251799813685248)) = Fin (8206247 / 8388608)"
    unfolding r32_def
    by (rule trans [OF round_to_eval [where e = "-1" and m = "16412494" and q = "1 / 2 ^ 24"]])
       (simp_all add: rne_def Let_def)
  then show ?thesis by (simp add: lit_def)
qed

lemma rnd_17: "Fin 2 * Fin (8206247 / 8388608) = Fin (8206247 / 4194304)"
proof -
  have "r64 (2 * (8206247 / 8388608)) = Fin (8206247 / 4194304)"
    unfolding r64_def
    by (rule trans [OF round_to_eval [where e = "0" and m = "8811390621974528" and q = "1 / 2 ^ 52"]])
       (simp_all add: rne_def Let_def)
  then show ?thesis by (simp add: lit_def)
qed

lemma rnd_18: "Fin (8206247 / 4194304) * Fin (8206247 / 8388608) = Fin (67342489825009 / 35184372088832)"
proof -
  have "r64 ((8206247 / 4194304) * (8206247 / 8388608)) = Fin (67342489825009 / 35184372088832)"
    unfolding r64_def
    by (rule trans [OF round_to_eval [where e = "0" and m = "8619838697601152" and q = "1 / 2 ^ 52"]])
       (simp_all add: rne_def Let_def)
  then show ?thesis by (simp add: lit_def)
qed

lemma rnd_19: "Fin 1 - Fin (67342489825009 / 35184372088832) = Fin (- (32158117736177 / 35184372088832))"
proof -
  have "r64 (1 - (67342489825009 / 35184372088832)) = Fin (- (32158117736177 / 35184372088832))"
    unfolding r64_def
    by (rule trans [OF round_to_eval [where e = "-1" and m = "-8232478140461312" and q = "1 / 2 ^ 53"]])
       (simp_all add: rne_def Let_def)
  then show ?thesis by (simp add: lit_def)
qed

lemma rnd_20: "Fin 20 * Fin (- (32158117736177 / 35184372088832)) = Fin (- (160790588680885 / 8796093022208))"
proof -
  have "r64 (20 * (- (32158117736177 / 35184372088832))) = Fin (- (160790588680885 / 8796093022208))"
    unfolding r64_def
    by (rule trans [OF round_to_eval [where e = "4" and m = "-5145298837788320" and q = "1 / 2 ^ 48"]])
       (simp_all add: rne_def Let_def)
  then show ?thesis by (simp add: lit_def)
qed

lemma rnd_21: "Fin 15 + Fin (- (160790588680885 / 8796093022208)) = Fin (- (28849193347765 / 8796093022208))"
proof -
  have "r64 (15 + (- (160790588680885 / 8796093022208))) = Fin (- (28849193347765 / 8796093022208))"
    unfolding r64_def
    by (rule trans [OF round_to_eval [where e = "1" and m = "-7385393497027840" and q = "1 / 2 ^ 51"]])
       (simp_all add: rne_def Let_def)
  then show ?thesis by (simp add: lit_def)
qed

lemma rnd_22: "f32 (Fin (- (28849193347765 / 8796093022208))) = Fin (- (13756367 / 4194304))"
proof -
  have "r32 ((- (28849193347765 / 8796093022208))) = Fin (- (13756367 / 4194304))"
    unfolding r32_def
    by (rule trans [OF round_to_eval [where e = "1" and m = "-13756367" and q = "1 / 2 ^ 22"]])
       (simp_all add: rne_def Let_def)
  then show ?thesis by (simp add: lit_def)
qed

lemma rnd_23: "Fin 2 / Fin 46 = Fin (1566469435607129 / 36028797018963968)"
proof -
  have "r64 (2 / 46) = Fin (1566469435607129 / 36028797018963968)"
    unfolding r64_def
    by (rule trans [OF round_to_eval [where e = "-5" and m = "6265877742428516" and q = "1 / 2 ^ 57"]])
       (simp_all add: rne_def Let_def)
  then show ?thesis by (simp add: lit_def)
qed

lemma rnd_24: "Fin (1566469435607129 / 36028797018963968) * Fin (1566469435607129 / 36028797018963968) = Fin (2179435736496875 / 1152921504606846976)"
proof -
  have "r64 ((1566469435607129 / 36028797018963968) * (1566469435607129 / 36028797018963968)) = Fin (2179435736496875 / 1152921504606846976)"
    unfolding r64_def
    by (rule trans [OF round_to_eval [where e = "-10" and m = "8717742945987500" and q = "1 / 2 ^ 62"]])
       (simp_all add: rne_def Let_def)
  then show ?thesis by (simp add: lit_def)
qed

lemma rnd_25: "Fin 2 * Fin (5404319552844595 / 9007199254740992) = Fin (5404319552844595 / 4503599627370496)"
proof -
  have "r64 (2 * (5404319552844595 / 9007199254740992)) = Fin (5404319552844595 / 4503599627370496)"
    unfolding r64_def
    by (rule trans [OF round_to_eval [where e = "0" and m = "5404319552844595" and q = "1 / 2 ^ 52"]])
       (simp_all add: rne_def Let_def)
  then show ?thesis by (simp add: lit_def)
qed

lemma rnd_26: "Fin (5404319552844595 / 4503599627370496) + Fin (1152921504606847 / 1152921504606846976) = Fin (5408823152471965 / 4503599627370496)"
proof -
  have "r64 ((5404319552844595 / 4503599627370496) + (1152921504606847 / 1152921504606846976)) = Fin (5408823152471965 / 4503599627370496)"
    unfolding r64_def
    by (rule trans [OF round_to_eval [where e = "0" and m = "5408823152471965" and q = "1 / 2 ^ 52"]])
       (simp_all add: rne_def Let_def)
  then show ?thesis by (simp add: lit_def)
qed

lemma rnd_27: "Fin (2179435736496875 / 1152921504606846976) / Fin (5408823152471965 / 4503599627370496) = Fin (7258736840955455 / 4611686018427387904)"
proof -
  have "r64 ((2179435736496875 / 1152921504606846976) / (5408823152471965 / 4503599627370496)) = Fin (7258736840955455 / 4611686018427387904)"
    unfolding r64_def
    by (rule trans [OF round_to_eval [where e = "-10" and m = "7258736840955455" and q = "1 / 2 ^ 62"]])
       (simp_all add: rne_def Let_def)
  then show ?thesis by (simp add: lit_def)
qed

lemma rnd_28: "Fin (7258736840955455 / 4611686018427387904) * Fin (3602879701896397 / 4503599627370496) = Fin (1451747368191091 / 1152921504606846976)"
proof -
  have "r64 ((7258736840955455 / 4611686018427387904) * (3602879701896397 / 4503599627370496)) = Fin (1451747368191091 / 1152921504606846976)"
    unfolding r64_def
    by (rule trans [OF round_to_eval [where e = "-10" and m = "5806989472764364" and q = "1 / 2 ^ 62"]])
       (simp_all add: rne_def Let_def)
  then show ?thesis by (simp add: lit_def)
qed

lemma rnd_29: "Fin (1152921504606847 / 576460752303423488) - Fin (1451747368191091 / 1152921504606846976) = Fin (854095641022603 / 1152921504606846976)"
proof -
  have "r64 ((1152921504606847 / 576460752303423488) - (1451747368191091 / 1152921504606846976)) = Fin (854095641022603 / 1152921504606846976)"
    unfolding r64_def
    by (rule trans [OF round_to_eval [where e = "-11" and m = "6832765128180824" and q = "1 / 2 ^ 63"]])
       (simp_all add: rne_def Let_def)
  then show ?thesis by (simp add: lit_def)
qed

lemma rnd_30: "Fin (854095641022603 / 1152921504606846976) - Fin (854095641022603 / 1152921504606846976) = Fin 0"
  by (simp add: r64_def lit_def round_to_def)

lemma rnd_31: "Fin 0 + Fin (1152921504606847 / 576460752303423488) = Fin (1152921504606847 / 576460752303423488)"
proof -
  have "r64 (0 + (1152921504606847 / 576460752303423488)) = Fin (1152921504606847 / 576460752303423488)"
    unfolding r64_def
    by (rule trans [OF round_to_eval [where e = "-9" and m = "4611686018427388" and q = "1 / 2 ^ 61"]])
       (simp_all add: rne_def Let_def)
  then show ?thesis by (simp add: lit_def)
qed

lemma rnd_32: "Fin (5809340877412981 / 4611686018427387904) - Fin (1451747368191091 / 1152921504606846976) = Fin (2351404648617 / 4611686018427387904)"
proof -
  have "r64 ((5809340877412981 / 4611686018427387904) - (1451747368191091 / 1152921504606846976)) = Fin (2351404648617 / 4611686018427387904)"
    unfolding r64_def
    by (rule trans [OF round_to_eval [where e = "-21" and m = "4815676720367616" and q = "1 / 2 ^ 73"]])
       (simp_all add: rne_def Let_def)
  then show ?thesis by (simp add: lit_def)
qed

lemma rnd_33: "Fin 0 + Fin (5809340877412981 / 4611686018427387904) = Fin (5809340877412981 / 4611686018427387904)"
proof -
  have "r64 (0 + (5809340877412981 / 4611686018427387904)) = Fin (5809340877412981 / 4611686018427387904)"
    unfolding r64_def
    by (rule trans [OF round_to_eval [where e = "-10" and m = "5809340877412981" and q = "1 / 2 ^ 62"]])
       (simp_all add: rne_def Let_def)
  then show ?thesis by (simp add: lit_def)
qed

lemma rnd_34: "Fin 0 + Fin (1451747368191091 / 1152921504606846976) = Fin (1451747368191091 / 1152921504606846976)"
proof -
  have "r64 (0 + (1451747368191091 / 1152921504606846976)) = Fin (1451747368191091 / 1152921504606846976)"
    unfolding r64_def
    by (rule trans [OF round_to_eval [where e = "-10" and m = "5806989472764364" and q = "1 / 2 ^ 62"]])
       (simp_all add: rne_def Let_def)
  then show ?thesis by (simp add: lit_def)
qed

lemma rnd_35: "Fin 0 + Fin (944473296573929 / 9444732965739290427392) = Fin (944473296573929 / 9444732965739290427392)"
proof -
  have "r64 (0 + (944473296573929 / 9444732965739290427392)) = Fin (944473296573929 / 9444732965739290427392)"
    unfolding r64_def
    by (rule trans [OF round_to_eval [where e = "-24" and m = "7555786372591432" and q = "1 / 2 ^ 76"]])
       (simp_all add: rne_def Let_def)
  then show ?thesis by (simp add: lit_def)
qed

lemma rnd_36: "Fin 0 + Fin (1 / 2) = Fin (1 / 2)"
proof -
  have "r64 (0 + (1 / 2)) = Fin (1 / 2)"
    unfolding r64_def
    by (rule trans [OF round_to_eval [where e = "-1" and m = "4503599627370496" and q = "1 / 2 ^ 53"]])
       (simp_all add: rne_def Let_def)
  then show ?thesis by (simp add: lit_def)
qed

lemma rnd_37: "Fin 9007199254740992 + Fin 1 = Fin 9007199254740992"
proof -
  have "r64 (9007199254740992 + 1) = Fin 9007199254740992"
    unfolding r64_def
    by (rule trans [OF round_to_eval [where e = "53" and m = "4503599627370496" and q = "2 ^ 1"]])
       (simp_all add: rne_def Let_def)
  then show ?thesis by (simp add: lit_def)
qed

lemma rnd_38: "Fin 2 / Fin 2 = Fin 1"
proof -
  have "r64 (2 / 2) = Fin 1"
    unfolding r64_def
    by (rule trans [OF round_to_eval [where e = "0" and m = "4503599627370496" and q = "1 / 2 ^ 52"]])
       (simp_all add: rne_def Let_def)
  then show ?thesis by (simp add: lit_def)
qed

lemma rnd_39: "Fin 1 * Fin 1 = Fin 1"
proof -
  have "r64 (1 * 1) = Fin 1"
    unfolding r64_def
    by (rule trans [OF round_to_eval [where e = "0" and m = "4503599627370496" and q = "1 / 2 ^ 52"]])
       (simp_all add: rne_def Let_def)
  then show ?thesis by (simp add: lit_def)
qed

lemma rnd_40: "Fin (- 1) + Fin 1 = Fin 0"
  by (simp add: r64_def lit_def round_to_def)

lemma rnd_41: "Fin 0 * Fin 0 = Fin 0"
  by (simp add: r64_def lit_def round_to_def)

lemma rnd_42: "Fin 1 - Fin 0 = Fin 1"
proof -
  have "r64 (1 - 0) = Fin 1"
    unfolding r64_def
    by (rule trans [OF round_to_eval [where e = "0" and m = "4503599627370496" and q = "1 / 2 ^ 52"]])
       (simp_all add: rne_def Let_def)
  then show ?thesis by (simp add: lit_def)
qed

lemma rnd_43: "Fin 1 / Fin 1 = Fin 1"
proof -
  have "r64 (1 / 1) = Fin 1"
    unfolding r64_def
    by (rule trans [OF round_to_eval [where e = "0" and m = "4503599627370496" and q = "1 / 2 ^ 52"]])
       (simp_all add: rne_def Let_def)
  then show ?thesis by (simp add: lit_def)
qed

lemma rnd_44: "Fin (- (5404319552844595 / 9007199254740992)) * Fin 1 = Fin (- (5404319552844595 / 9007199254740992))"
proof -
  have "r64 ((- (5404319552844595 / 9007199254740992)) * 1) = Fin (- (5404319552844595 / 9007199254740992))"
    unfolding r64_def
    by (rule trans [OF round_to_eval [where e = "-1" and m = "-5404319552844595" and q = "1 / 2 ^ 53"]])
       (simp_all add: rne_def Let_def)
  then show ?thesis by (simp add: lit_def)
qed

lemma rnd_45: "f32 (Fin (- (5404319552844595 / 9007199254740992))) = Fin (- (5033165 / 8388608))"
proof -
  have "r32 ((- (5404319552844595 / 9007199254740992))) = Fin (- (5033165 / 8388608))"
    unfolding r32_def
    by (rule trans [OF round_to_eval [where e = "-1" and m = "-10066330" and q = "1 / 2 ^ 24"]])
       (simp_all add: rne_def Let_def)
  then show ?thesis by (simp add: lit_def)
qed

lemma rnd_46: "Fin (- (5033165 / 8388608)) - Fin 0 = Fin (- (5033165 / 8388608))"
proof -
  have "r64 ((- (5033165 / 8388608)) - 0) = Fin (- (5033165 / 8388608))"
    unfolding r64_def
    by (rule trans [OF round_to_eval [where e = "-1" and m = "-5404319767592960" and q = "1 / 2 ^ 53"]])
       (simp_all add: rne_def Let_def)
  then show ?thesis by (simp add: lit_def)
qed

lemma rnd_47: "Fin (5033165 / 8388608) / Fin 1 = Fin (5033165 / 8388608)"
proof -
  have "r64 ((5033165 / 8388608) / 1) = Fin (5033165 / 8388608)"
    unfolding r64_def
    by (rule trans [OF round_to_eval [where e = "-1" and m = "5404319767592960" and q = "1 / 2 ^ 53"]])
       (simp_all add: rne_def Let_def)
  then show ?thesis by (simp add: lit_def)
qed

lemma rnd_48: "f32 (Fin (5033165 / 8388608)) = Fin (5033165 / 8388608)"
proof -
  have "r32 ((5033165 / 8388608)) = Fin (5033165 / 8388608)"
    unfolding r32_def
    by (rule trans [OF round_to_eval [where e = "-1" and m = "10066330" and q = "1 / 2 ^ 24"]])
       (simp_all add: rne_def Let_def)
  then show ?thesis by (simp add: lit_def)
qed

lemma rnd_49: "Fin 0 - Fin (- (5033165 / 8388608)) = Fin (5033165 / 8388608)"
proof -
  have "r64 (0 - (- (5033165 / 8388608))) = Fin (5033165 / 8388608)"
    unfolding r64_def
    by (rule trans [OF round_to_eval [where e = "-1" and m = "5404319767592960" and q = "1 / 2 ^ 53"]])
       (simp_all add: rne_def Let_def)
  then show ?thesis by (simp add: lit_def)
qed

lemma rnd_50: "Fin (- (5033165 / 8388608)) / Fin 1 = Fin (- (5033165 / 8388608))"
proof -
  have "r64 ((- (5033165 / 8388608)) / 1) = Fin (- (5033165 / 8388608))"
    unfolding r64_def
    by (rule trans [OF round_to_eval [where e = "-1" and m = "-5404319767592960" and q = "1 / 2 ^ 53"]])
       (simp_all add: rne_def Let_def)
  then show ?thesis by (simp add: lit_def)
qed

lemma rnd_51: "f32 (Fin (- (5033165 / 8388608))) = Fin (- (5033165 / 8388608))"
proof -
  have "r32 ((- (5033165 / 8388608))) = Fin (- (5033165 / 8388608))"
    unfolding r32_def
    by (rule trans [OF round_to_eval [where e = "-1" and m = "-10066330" and q = "1 / 2 ^ 24"]])
       (simp_all add: rne_def Let_def)
  then show ?thesis by (simp add: lit_def)
qed

lemma rnd_52: "Fin (- (5404319552844595 / 9007199254740992)) / Fin 1 = Fin (- (5404319552844595 / 9007199254740992))"
proof -
  have "r64 ((- (5404319552844595 / 9007199254740992)) / 1) = Fin (- (5404319552844595 / 9007199254740992))"
    unfolding r64_def
    by (rule trans [OF round_to_eval [where e = "-1" and m = "-5404319552844595" and q = "1 / 2 ^ 53"]])
       (simp_all add: rne_def Let_def)
  then show ?thesis by (simp add: lit_def)
qed

lemma rnd_53: "Fin 2 / Fin 3 = Fin (6004799503160661 / 9007199254740992)"
proof -
  have "r64 (2 / 3) = Fin (6004799503160661 / 9007199254740992)"
    unfolding r64_def
    by (rule trans [OF round_to_eval [where e = "-1" and m = "6004799503160661" and q = "1 / 2 ^ 53"]])
       (simp_all add: rne_def Let_def)
  then show ?thesis by (simp add: lit_def)
qed

lemma rnd_54: "Fin 1 * Fin (6004799503160661 / 9007199254740992) = Fin (6004799503160661 / 9007199254740992)"
proof -
  have "r64 (1 * (6004799503160661 / 9007199254740992)) = Fin (6004799503160661 / 9007199254740992)"
    unfolding r64_def
    by (rule trans [OF round_to_eval [where e = "-1" and m = "6004799503160661" and q = "1 / 2 ^ 53"]])
       (simp_all add: rne_def Let_def)
  then show ?thesis by (simp add: lit_def)
qed

lemma rnd_55: "Fin (- 1) + Fin (6004799503160661 / 9007199254740992) = Fin (- (3002399751580331 / 9007199254740992))"
proof -
  have "r64 ((- 1) + (6004799503160661 / 9007199254740992)) = Fin (- (3002399751580331 / 9007199254740992))"
    unfolding r64_def
    by (rule trans [OF round_to_eval [where e = "-2" and m = "-6004799503160662" and q = "1 / 2 ^ 54"]])
       (simp_all add: rne_def Let_def)
  then show ?thesis by (simp add: lit_def)
qed

lemma rnd_56: "Fin (- (3002399751580331 / 9007199254740992)) * Fin (- (3002399751580331 / 9007199254740992)) = Fin (4003199668773775 / 36028797018963968)"
proof -
  have "r64 ((- (3002399751580331 / 9007199254740992)) * (- (3002399751580331 / 9007199254740992))) = Fin (4003199668773775 / 36028797018963968)"
    unfolding r64_def
    by (rule trans [OF round_to_eval [where e = "-4" and m = "8006399337547550" and q = "1 / 2 ^ 56"]])
       (simp_all add: rne_def Let_def)
  then show ?thesis by (simp add: lit_def)
qed

lemma rnd_57: "Fin 1 - Fin (4003199668773775 / 36028797018963968) = Fin (2001599834386887 / 2251799813685248)"
proof -
  have "r64 (1 - (4003199668773775 / 36028797018963968)) = Fin (2001599834386887 / 2251799813685248)"
    unfolding r64_def
    by (rule trans [OF round_to_eval [where e = "-1" and m = "8006399337547548" and q = "1 / 2 ^ 53"]])
       (simp_all add: rne_def Let_def)
  then show ?thesis by (simp add: lit_def)
qed

lemma rnd_58: "Fin 3 - Fin 0 = Fin 3"
proof -
  have "r64 (3 - 0) = Fin 3"
    unfolding r64_def
    by (rule trans [OF round_to_eval [where e = "1" and m = "6755399441055744" and q = "1 / 2 ^ 51"]])
       (simp_all add: rne_def Let_def)
  then show ?thesis by (simp add: lit_def)
qed

lemma rnd_59: "Fin 3 / Fin (6004799503160661 / 9007199254740992) = Fin (9 / 2)"
proof -
  have "r64 (3 / (6004799503160661 / 9007199254740992)) = Fin (9 / 2)"
    unfolding r64_def
    by (rule trans [OF round_to_eval [where e = "2" and m = "5066549580791808" and q = "1 / 2 ^ 50"]])
       (simp_all add: rne_def Let_def)
  then show ?thesis by (simp add: lit_def)
qed

lemma rnd_60: "Fin (- (5404319552844595 / 9007199254740992)) * Fin (2001599834386887 / 2251799813685248) = Fin (- (4803839602528529 / 9007199254740992))"
proof -
  have "r64 ((- (5404319552844595 / 9007199254740992)) * (2001599834386887 / 2251799813685248)) = Fin (- (4803839602528529 / 9007199254740992))"
    unfolding r64_def
    by (rule trans [OF round_to_eval [where e = "-1" and m = "-4803839602528529" and q = "1 / 2 ^ 53"]])
       (simp_all add: rne_def Let_def)
  then show ?thesis by (simp add: lit_def)
qed

lemma rnd_61: "Fin (- (4803839602528529 / 9007199254740992)) * Fin (9 / 2) = Fin (- (5404319552844595 / 2251799813685248))"
proof -
  have "r64 ((- (4803839602528529 / 9007199254740992)) * (9 / 2)) = Fin (- (5404319552844595 / 2251799813685248))"
    unfolding r64_def
    by (rule trans [OF round_to_eval [where e = "1" and m = "-5404319552844595" and q = "1 / 2 ^ 51"]])
       (simp_all add: rne_def Let_def)
  then show ?thesis by (simp add: lit_def)
qed

lemma rnd_62: "f32 (Fin (- (5404319552844595 / 2251799813685248))) = Fin (- (5033165 / 2097152))"
proof -
  have "r32 ((- (5404319552844595 / 2251799813685248))) = Fin (- (5033165 / 2097152))"
    unfolding r32_def
    by (rule trans [OF round_to_eval [where e = "1" and m = "-10066330" and q = "1 / 2 ^ 22"]])
       (simp_all add: rne_def Let_def)
  then show ?thesis by (simp add: lit_def)
qed

lemma rnd_63: "Fin 2 * Fin (6004799503160661 / 9007199254740992) = Fin (6004799503160661 / 4503599627370496)"
proof -
  have "r64 (2 * (6004799503160661 / 9007199254740992)) = Fin (6004799503160661 / 4503599627370496)"
    unfolding r64_def
    by (rule trans [OF round_to_eval [where e = "0" and m = "6004799503160661" and q = "1 / 2 ^ 52"]])
       (simp_all add: rne_def Let_def)
  then show ?thesis by (simp add: lit_def)
qed

lemma rnd_64: "Fin (- 1) + Fin (6004799503160661 / 4503599627370496) = Fin (1501199875790165 / 4503599627370496)"
proof -
  have "r64 ((- 1) + (6004799503160661 / 4503599627370496)) = Fin (1501199875790165 / 4503599627370496)"
    unfolding r64_def
    by (rule trans [OF round_to_eval [where e = "-2" and m = "6004799503160660" and q = "1 / 2 ^ 54"]])
       (simp_all add: rne_def Let_def)
  then show ?thesis by (simp add: lit_def)
qed

lemma rnd_65: "Fin (1501199875790165 / 4503599627370496) * Fin (1501199875790165 / 4503599627370496) = Fin (8006399337547545 / 72057594037927936)"
proof -
  have "r64 ((1501199875790165 / 4503599627370496) * (1501199875790165 / 4503599627370496)) = Fin (8006399337547545 / 72057594037927936)"
    unfolding r64_def
    by (rule trans [OF round_to_eval [where e = "-4" and m = "8006399337547545" and q = "1 / 2 ^ 56"]])
       (simp_all add: rne_def Let_def)
  then show ?thesis by (simp add: lit_def)
qed

lemma rnd_66: "Fin 1 - Fin (8006399337547545 / 72057594037927936) = Fin (8006399337547549 / 9007199254740992)"
proof -
  have "r64 (1 - (8006399337547545 / 72057594037927936)) = Fin (8006399337547549 / 9007199254740992)"
    unfolding r64_def
    by (rule trans [OF round_to_eval [where e = "-1" and m = "8006399337547549" and q = "1 / 2 ^ 53"]])
       (simp_all add: rne_def Let_def)
  then show ?thesis by (simp add: lit_def)
qed

lemma rnd_67: "Fin 1 - Fin 3 = Fin (- 2)"
proof -
  have "r64 (1 - 3) = Fin (- 2)"
    unfolding r64_def
    by (rule trans [OF round_to_eval [where e = "1" and m = "-4503599627370496" and q = "1 / 2 ^ 51"]])
       (simp_all add: rne_def Let_def)
  then show ?thesis by (simp add: lit_def)
qed

lemma rnd_68: "Fin (- 2) / Fin (6004799503160661 / 9007199254740992) = Fin (- 3)"
proof -
  have "r64 ((- 2) / (6004799503160661 / 9007199254740992)) = Fin (- 3)"
    unfolding r64_def
    by (rule trans [OF round_to_eval [where e = "1" and m = "-6755399441055744" and q = "1 / 2 ^ 51"]])
       (simp_all add: rne_def Let_def)
  then show ?thesis by (simp add: lit_def)
qed

lemma rnd_69: "Fin (- (5404319552844595 / 9007199254740992)) * Fin (8006399337547549 / 9007199254740992) = Fin (- (4803839602528529 / 9007199254740992))"
proof -
  have "r64 ((- (5404319552844595 / 9007199254740992)) * (8006399337547549 / 9007199254740992)) = Fin (- (4803839602528529 / 9007199254740992))"
    unfolding r64_def
    by (rule trans [OF round_to_eval [where e = "-1" and m = "-4803839602528529" and q = "1 / 2 ^ 53"]])
       (simp_all add: rne_def Let_def)
  then show ?thesis by (simp add: lit_def)
qed

lemma rnd_70: "Fin (- (4803839602528529 / 9007199254740992)) * Fin (- 3) = Fin (3602879701896397 / 2251799813685248)"
proof -
  have "r64 ((- (4803839602528529 / 9007199254740992)) * (- 3)) = Fin (3602879701896397 / 2251799813685248)"
    unfolding r64_def
    by (rule trans [OF round_to_eval [where e = "0" and m = "7205759403792794" and q = "1 / 2 ^ 52"]])
       (simp_all add: rne_def Let_def)
  then show ?thesis by (simp add: lit_def)
qed

lemma rnd_71: "f32 (Fin (3602879701896397 / 2251799813685248)) = Fin (13421773 / 8388608)"
proof -
  have "r32 ((3602879701896397 / 2251799813685248)) = Fin (13421773 / 8388608)"
    unfolding r32_def
    by (rule trans [OF round_to_eval [where e = "0" and m = "13421773" and q = "1 / 2 ^ 23"]])
       (simp_all add: rne_def Let_def)
  then show ?thesis by (simp add: lit_def)
qed

lemma rnd_72: "Fin (- (5033165 / 2097152)) - Fin 0 = Fin (- (5033165 / 2097152))"
proof -
  have "r64 ((- (5033165 / 2097152)) - 0) = Fin (- (5033165 / 2097152))"
    unfolding r64_def
    by (rule trans [OF round_to_eval [where e = "1" and m = "-5404319767592960" and q = "1 / 2 ^ 51"]])
       (simp_all add: rne_def Let_def)
  then show ?thesis by (simp add: lit_def)
qed

lemma rnd_73: "Fin (5033165 / 2097152) / Fin (6004799503160661 / 9007199254740992) = Fin (15099495 / 4194304)"
proof -
  have "r64 ((5033165 / 2097152) / (6004799503160661 / 9007199254740992)) = Fin (15099495 / 4194304)"
    unfolding r64_def
    by (rule trans [OF round_to_eval [where e = "1" and m = "8106479651389440" and q = "1 / 2 ^ 51"]])
       (simp_all add: rne_def Let_def)
  then show ?thesis by (simp add: lit_def)
qed

lemma rnd_74: "f32 (Fin (15099495 / 4194304)) = Fin (15099495 / 4194304)"
proof -
  have "r32 ((15099495 / 4194304)) = Fin (15099495 / 4194304)"
    unfolding r32_def
    by (rule trans [OF round_to_eval [where e = "1" and m = "15099495" and q = "1 / 2 ^ 22"]])
       (simp_all add: rne_def Let_def)
  then show ?thesis by (simp add: lit_def)
qed

lemma rnd_75: "Fin (13421773 / 8388608) - Fin (- (5033165 / 2097152)) = Fin (33554433 / 8388608)"
proof -
  have "r64 ((13421773 / 8388608) - (- (5033165 / 2097152))) = Fin (33554433 / 8388608)"
    unfolding r64_def
    by (rule trans [OF round_to_eval [where e = "2" and m = "4503599761588224" and q = "1 / 2 ^ 50"]])
       (simp_all add: rne_def Let_def)
  then show ?thesis by (simp add: lit_def)
qed

lemma rnd_76: "Fin (- (33554433 / 8388608)) / Fin (6004799503160661 / 9007199254740992) = Fin (- (100663299 / 16777216))"
proof -
  have "r64 ((- (33554433 / 8388608)) / (6004799503160661 / 9007199254740992)) = Fin (- (100663299 / 16777216))"
    unfolding r64_def
    by (rule trans [OF round_to_eval [where e = "2" and m = "-6755399642382336" and q = "1 / 2 ^ 50"]])
       (simp_all add: rne_def Let_def)
  then show ?thesis by (simp add: lit_def)
qed

lemma rnd_77: "f32 (Fin (- (100663299 / 16777216))) = Fin (- 6)"
proof -
  have "r32 ((- (100663299 / 16777216))) = Fin (- 6)"
    unfolding r32_def
    by (rule trans [OF round_to_eval [where e = "2" and m = "-12582912" and q = "1 / 2 ^ 21"]])
       (simp_all add: rne_def Let_def)
  then show ?thesis by (simp add: lit_def)
qed

lemma rnd_78: "Fin 0 - Fin (13421773 / 8388608) = Fin (- (13421773 / 8388608))"
proof -
  have "r64 (0 - (13421773 / 8388608)) = Fin (- (13421773 / 8388608))"
    unfolding r64_def
    by (rule trans [OF round_to_eval [where e = "0" and m = "-7205759511166976" and q = "1 / 2 ^ 52"]])
       (simp_all add: rne_def Let_def)
  then show ?thesis by (simp add: lit_def)
qed

lemma rnd_79: "Fin (13421773 / 8388608) / Fin (6004799503160661 / 9007199254740992) = Fin (40265319 / 16777216)"
proof -
  have "r64 ((13421773 / 8388608) / (6004799503160661 / 9007199254740992)) = Fin (40265319 / 16777216)"
    unfolding r64_def
    by (rule trans [OF round_to_eval [where e = "1" and m = "5404319633375232" and q = "1 / 2 ^ 51"]])
       (simp_all add: rne_def Let_def)
  then show ?thesis by (simp add: lit_def)
qed

lemma rnd_80: "f32 (Fin (40265319 / 16777216)) = Fin (5033165 / 2097152)"
proof -
  have "r32 ((40265319 / 16777216)) = Fin (5033165 / 2097152)"
    unfolding r32_def
    by (rule trans [OF round_to_eval [where e = "1" and m = "10066330" and q = "1 / 2 ^ 22"]])
       (simp_all add: rne_def Let_def)
  then show ?thesis by (simp add: lit_def)
qed

lemma rnd_81: "Fin (- 170141183460469231731687303715884105728) - Fin 170141183460469231731687303715884105728 = Fin (- 340282366920938463463374607431768211456)"
proof -
  have "r64 ((- 170141183460469231731687303715884105728) - 170141183460469231731687303715884105728) = Fin (- 340282366920938463463374607431768211456)"
    unfolding r64_def
    by (rule trans [OF round_to_eval [where e = "128" and m = "-4503599627370496" and q = "2 ^ 76"]])
       (simp_all add: rne_def Let_def)
  then show ?thesis by (simp add: lit_def)
qed

lemma rnd_82: "Fin (- 340282366920938463463374607431768211456) / Fin 1 = Fin (- 340282366920938463463374607431768211456)"
proof -
  have "r64 ((- 340282366920938463463374607431768211456) / 1) = Fin (- 340282366920938463463374607431768211456)"
    unfolding r64_def
    by (rule trans [OF round_to_eval [where e = "128" and m = "-4503599627370496" and q = "2 ^ 76"]])
       (simp_all add: rne_def Let_def)
  then show ?thesis by (simp add: lit_def)
qed

lemma rnd_83: "Fin (- 2) * Fin 1 = Fin (- 2)"
proof -
  have "r64 ((- 2) * 1) = Fin (- 2)"
    unfolding r64_def
    by (rule trans [OF round_to_eval [where e = "1" and m = "-4503599627370496" and q = "1 / 2 ^ 51"]])
       (simp_all add: rne_def Let_def)
  then show ?thesis by (simp add: lit_def)
qed

lemma rnd_84: "Fin (- 2) * Fin (- 340282366920938463463374607431768211456) = Fin 680564733841876926926749214863536422912"
proof -
  have "r64 ((- 2) * (- 340282366920938463463374607431768211456)) = Fin 680564733841876926926749214863536422912"
    unfolding r64_def
    by (rule trans [OF round_to_eval [where e = "129" and m = "4503599627370496" and q = "2 ^ 77"]])
       (simp_all add: rne_def Let_def)
  then show ?thesis by (simp add: lit_def)
qed

lemma rnd_85: "f32 (Fin 680564733841876926926749214863536422912) = PosInf"
proof -
  have "r32 (680564733841876926926749214863536422912) = PosInf"
    unfolding r32_def
    by (rule trans [OF round_to_overflow [where e = "129" and m = "8388608" and q = "2 ^ 106"]])
       (simp_all add: rne_def Let_def)
  then show ?thesis by (simp add: lit_def)
qed

lemma rnd_86: "f32 (Fin (5404319552844595 / 18014398509481984)) = Fin (5033165 / 16777216)"
proof -
  have "r32 ((5404319552844595 / 18014398509481984)) = Fin (5033165 / 16777216)"
    unfolding r32_def
    by (rule trans [OF round_to_eval [where e = "-2" and m = "10066330" and q = "1 / 2 ^ 25"]])
       (simp_all add: rne_def Let_def)
  then show ?thesis by (simp add: lit_def)
qed

lemma rnd_87: "f32 (Fin (5584463537939415 / 9007199254740992)) = Fin (5200937 / 8388608)"
proof -
  have "r32 ((5584463537939415 / 9007199254740992)) = Fin (5200937 / 8388608)"
    unfolding r32_def
    by (rule trans [OF round_to_eval [where e = "-1" and m = "10401874" and q = "1 / 2 ^ 24"]])
       (simp_all add: rne_def Let_def)
  then show ?thesis by (simp add: lit_def)
qed

lemma rnd_88: "Fin 1 - Fin (5033165 / 16777216) = Fin (11744051 / 16777216)"
proof -
  have "r64 (1 - (5033165 / 16777216)) = Fin (11744051 / 16777216)"
    unfolding r64_def
    by (rule trans [OF round_to_eval [where e = "-1" and m = "6305039370944512" and q = "1 / 2 ^ 53"]])
       (simp_all add: rne_def Let_def)
  then show ?thesis by (simp add: lit_def)
qed

lemma rnd_89: "Fin 100 * Fin (11744051 / 16777216) = Fin (293601275 / 4194304)"
proof -
  have "r64 (100 * (11744051 / 16777216)) = Fin (293601275 / 4194304)"
    unfolding r64_def
    by (rule trans [OF round_to_eval [where e = "6" and m = "4925812008550400" and q = "1 / 2 ^ 46"]])
       (simp_all add: rne_def Let_def)
  then show ?thesis by (simp add: lit_def)
qed

lemma rnd_90: "f32 (Fin (293601275 / 4194304)) = Fin 70"
proof -
  have "r32 ((293601275 / 4194304)) = Fin 70"
    unfolding r32_def
    by (rule trans [OF round_to_eval [where e = "6" and m = "9175040" and q = "1 / 2 ^ 17"]])
       (simp_all add: rne_def Let_def)
  then show ?thesis by (simp add: lit_def)
qed

lemma rnd_91: "Fin 1 - Fin (5200937 / 8388608) = Fin (3187671 / 8388608)"
proof -
  have "r64 (1 - (5200937 / 8388608)) = Fin (3187671 / 8388608)"
    unfolding r64_def
    by (rule trans [OF round_to_eval [where e = "-2" and m = "6845471347703808" and q = "1 / 2 ^ 54"]])
       (simp_all add: rne_def Let_def)
  then show ?thesis by (simp add: lit_def)
qed

lemma rnd_92: "Fin 200 * Fin (3187671 / 8388608) = Fin (79691775 / 1048576)"
proof -
  have "r64 (200 * (3187671 / 8388608)) = Fin (79691775 / 1048576)"
    unfolding r64_def
    by (rule trans [OF round_to_eval [where e = "6" and m = "5348024490393600" and q = "1 / 2 ^ 46"]])
       (simp_all add: rne_def Let_def)
  then show ?thesis by (simp add: lit_def)
qed

lemma rnd_93: "f32 (Fin (79691775 / 1048576)) = Fin 76"
proof -
  have "r32 ((79691775 / 1048576)) = Fin 76"
    unfolding r32_def
    by (rule trans [OF round_to_eval [where e = "6" and m = "9961472" and q = "1 / 2 ^ 17"]])
       (simp_all add: rne_def Let_def)
  then show ?thesis by (simp add: lit_def)
qed

lemma rnd_94: "Fin 2 * Fin (- 10) = Fin (- 20)"
proof -
  have "r64 (2 * (- 10)) = Fin (- 20)"
    unfolding r64_def
    by (rule trans [OF round_to_eval [where e = "4" and m = "-5629499534213120" and q = "1 / 2 ^ 48"]])
       (simp_all add: rne_def Let_def)
  then show ?thesis by (simp add: lit_def)
qed

lemma rnd_95: "Fin 210 + Fin (- 20) = Fin 190"
proof -
  have "r64 (210 + (- 20)) = Fin 190"
    unfolding r64_def
    by (rule trans [OF round_to_eval [where e = "7" and m = "6685030696878080" and q = "1 / 2 ^ 45"]])
       (simp_all add: rne_def Let_def)
  then show ?thesis by (simp add: lit_def)
qed

lemma rnd_96: "f32 (Fin 190) = Fin 190"
proof -
  have "r32 (190) = Fin 190"
    unfolding r32_def
    by (rule trans [OF round_to_eval [where e = "7" and m = "12451840" and q = "1 / 2 ^ 16"]])
       (simp_all add: rne_def Let_def)
  then show ?thesis by (simp add: lit_def)
qed

lemma rnd_97: "Fin 2 * Fin (- 11) = Fin (- 22)"
proof -
  have "r64 (2 * (- 11)) = Fin (- 22)"
    unfolding r64_def
    by (rule trans [OF round_to_eval [where e = "4" and m = "-6192449487634432" and q = "1 / 2 ^ 48"]])
       (simp_all add: rne_def Let_def)
  then show ?thesis by (simp add: lit_def)
qed

lemma rnd_98: "Fin 210 + Fin (- 22) = Fin 188"
proof -
  have "r64 (210 + (- 22)) = Fin 188"
    unfolding r64_def
    by (rule trans [OF round_to_eval [where e = "7" and m = "6614661952700416" and q = "1 / 2 ^ 45"]])
       (simp_all add: rne_def Let_def)
  then show ?thesis by (simp add: lit_def)
qed

lemma rnd_99: "f32 (Fin 188) = Fin 188"
proof -
  have "r32 (188) = Fin 188"
    unfolding r32_def
    by (rule trans [OF round_to_eval [where e = "7" and m = "12320768" and q = "1 / 2 ^ 16"]])
       (simp_all add: rne_def Let_def)
  then show ?thesis by (simp add: lit_def)
qed

lemma rnd_100: "Fin (1 / 2) / Fin 33554432 = Fin (1 / 67108864)"
proof -
  have "r64 ((1 / 2) / 33554432) = Fin (1 / 67108864)"
    unfolding r64_def
    by (rule trans [OF round_to_eval [where e = "-26" and m = "4503599627370496" and q = "1 / 2 ^ 78"]])
       (simp_all add: rne_def Let_def)
  then show ?thesis by (simp add: lit_def)
qed

lemma rnd_101: "Fin 2 * Fin (1 / 67108864) = Fin (1 / 33554432)"
proof -
  have "r64 (2 * (1 / 67108864)) = Fin (1 / 33554432)"
    unfolding r64_def
    by (rule trans [OF round_to_eval [where e = "-25" and m = "4503599627370496" and q = "1 / 2 ^ 77"]])
       (simp_all add: rne_def Let_def)
  then show ?thesis by (simp add: lit_def)
qed

lemma rnd_102: "Fin (- 1) + Fin (1 / 33554432) = Fin (- (33554431 / 33554432))"
proof -
  have "r64 ((- 1) + (1 / 33554432)) = Fin (- (33554431 / 33554432))"
    unfolding r64_def
    by (rule trans [OF round_to_eval [where e = "-1" and m = "-9007198986305536" and q = "1 / 2 ^ 53"]])
       (simp_all add: rne_def Let_def)
  then show ?thesis by (simp add: lit_def)
qed

lemma rnd_103: "f32 (Fin (- (33554431 / 33554432))) = Fin (- 1)"
proof -
  have "r32 ((- (33554431 / 33554432))) = Fin (- 1)"
    unfolding r32_def
    by (rule trans [OF round_to_eval [where e = "-1" and m = "-16777216" and q = "1 / 2 ^ 24"]])
       (simp_all add: rne_def Let_def)
  then show ?thesis by (simp add: lit_def)
qed

lemma rnd_104: "Fin 1 + Fin (1 / 2) = Fin (3 / 2)"
proof -
  have "r64 (1 + (1 / 2)) = Fin (3 / 2)"
    unfolding r64_def
    by (rule trans [OF round_to_eval [where e = "0" and m = "6755399441055744" and q = "1 / 2 ^ 52"]])
       (simp_all add: rne_def Let_def)
  then show ?thesis by (simp add: lit_def)
qed

lemma rnd_105: "Fin (3 / 2) / Fin 33554432 = Fin (3 / 67108864)"
proof -
  have "r64 ((3 / 2) / 33554432) = Fin (3 / 67108864)"
    unfolding r64_def
    by (rule trans [OF round_to_eval [where e = "-25" and m = "6755399441055744" and q = "1 / 2 ^ 77"]])
       (simp_all add: rne_def Let_def)
  then show ?thesis by (simp add: lit_def)
qed

lemma rnd_106: "Fin 2 * Fin (3 / 67108864) = Fin (3 / 33554432)"
proof -
  have "r64 (2 * (3 / 67108864)) = Fin (3 / 33554432)"
    unfolding r64_def
    by (rule trans [OF round_to_eval [where e = "-24" and m = "6755399441055744" and q = "1 / 2 ^ 76"]])
       (simp_all add: rne_def Let_def)
  then show ?thesis by (simp add: lit_def)
qed

lemma rnd_107: "Fin (- 1) + Fin (3 / 33554432) = Fin (- (33554429 / 33554432))"
proof -
  have "r64 ((- 1) + (3 / 33554432)) = Fin (- (33554429 / 33554432))"
    unfolding r64_def
    by (rule trans [OF round_to_eval [where e = "-1" and m = "-9007198449434624" and q = "1 / 2 ^ 53"]])
       (simp_all add: rne_def Let_def)
  then show ?thesis by (simp add: lit_def)
qed

lemma rnd_108: "f32 (Fin (- (33554429 / 33554432))) = Fin (- (8388607 / 8388608))"
proof -
  have "r32 ((- (33554429 / 33554432))) = Fin (- (8388607 / 8388608))"
    unfolding r32_def
    by (rule trans [OF round_to_eval [where e = "-1" and m = "-16777214" and q = "1 / 2 ^ 24"]])
       (simp_all add: rne_def Let_def)
  then show ?thesis by (simp add: lit_def)
qed

lemma rnd_109: "Fin 2 + Fin (1 / 2) = Fin (5 / 2)"
proof -
  have "r64 (2 + (1 / 2)) = Fin (5 / 2)"
    unfolding r64_def
    by (rule trans [OF round_to_eval [where e = "1" and m = "5629499534213120" and q = "1 / 2 ^ 51"]])
       (simp_all add: rne_def Let_def)
  then show ?thesis by (simp add: lit_def)
qed

lemma rnd_110: "Fin (5 / 2) / Fin 33554432 = Fin (5 / 67108864)"
proof -
  have "r64 ((5 / 2) / 33554432) = Fin (5 / 67108864)"
    unfolding r64_def
    by (rule trans [OF round_to_eval [where e = "-24" and m = "5629499534213120" and q = "1 / 2 ^ 76"]])
       (simp_all add: rne_def Let_def)
  then show ?thesis by (simp add: lit_def)
qed

lemma rnd_111: "Fin 2 * Fin (5 / 67108864) = Fin (5 / 33554432)"
proof -
  have "r64 (2 * (5 / 67108864)) = Fin (5 / 33554432)"
    unfolding r64_def
    by (rule trans [OF round_to_eval [where e = "-23" and m = "5629499534213120" and q = "1 / 2 ^ 75"]])
       (simp_all add: rne_def Let_def)
  then show ?thesis by (simp add: lit_def)
qed

lemma rnd_112: "Fin (- 1) + Fin (5 / 33554432) = Fin (- (33554427 / 33554432))"
proof -
  have "r64 ((- 1) + (5 / 33554432)) = Fin (- (33554427 / 33554432))"
    unfolding r64_def
    by (rule trans [OF round_to_eval [where e = "-1" and m = "-9007197912563712" and q = "1 / 2 ^ 53"]])
       (simp_all add: rne_def Let_def)
  then show ?thesis by (simp add: lit_def)
qed

lemma rnd_113: "f32 (Fin (- (33554427 / 33554432))) = Fin (- (8388607 / 8388608))"
proof -
  have "r32 ((- (33554427 / 33554432))) = Fin (- (8388607 / 8388608))"
    unfolding r32_def
    by (rule trans [OF round_to_eval [where e = "-1" and m = "-16777214" and q = "1 / 2 ^ 24"]])
       (simp_all add: rne_def Let_def)
  then show ?thesis by (simp add: lit_def)
qed

lemma rnd_114: "Fin 33554431 + Fin (1 / 2) = Fin (67108863 / 2)"
proof -
  have "r64 (33554431 + (1 / 2)) = Fin (67108863 / 2)"
    unfolding r64_def
    by (rule trans [OF round_to_eval [where e = "24" and m = "9007199120523264" and q = "1 / 2 ^ 28"]])
       (simp_all add: rne_def Let_def)
  then show ?thesis by (simp add: lit_def)
qed

lemma rnd_115: "Fin (67108863 / 2) / Fin 33554432 = Fin (67108863 / 67108864)"
proof -
  have "r64 ((67108863 / 2) / 33554432) = Fin (67108863 / 67108864)"
    unfolding r64_def
    by (rule trans [OF round_to_eval [where e = "-1" and m = "9007199120523264" and q = "1 / 2 ^ 53"]])
       (simp_all add: rne_def Let_def)
  then show ?thesis by (simp add: lit_def)
qed

lemma rnd_116: "Fin 2 * Fin (67108863 / 67108864) = Fin (67108863 / 33554432)"
proof -
  have "r64 (2 * (67108863 / 67108864)) = Fin (67108863 / 33554432)"
    unfolding r64_def
    by (rule trans [OF round_to_eval [where e = "0" and m = "9007199120523264" and q = "1 / 2 ^ 52"]])
       (simp_all add: rne_def Let_def)
  then show ?thesis by (simp add: lit_def)
qed

lemma rnd_117: "Fin (- 1) + Fin (67108863 / 33554432) = Fin (33554431 / 33554432)"
proof -
  have "r64 ((- 1) + (67108863 / 33554432)) = Fin (33554431 / 33554432)"
    unfolding r64_def
    by (rule trans [OF round_to_eval [where e = "-1" and m = "9007198986305536" and q = "1 / 2 ^ 53"]])
       (simp_all add: rne_def Let_def)
  then show ?thesis by (simp add: lit_def)
qed

lemma rnd_118: "f32 (Fin (33554431 / 33554432)) = Fin 1"
proof -
  have "r32 ((33554431 / 33554432)) = Fin 1"
    unfolding r32_def
    by (rule trans [OF round_to_eval [where e = "-1" and m = "16777216" and q = "1 / 2 ^ 24"]])
       (simp_all add: rne_def Let_def)
  then show ?thesis by (simp add: lit_def)
qed

lemma rnd_119: "Fin (1 / 2) / Fin 2 = Fin (1 / 4)"
proof -
  have "r64 ((1 / 2) / 2) = Fin (1 / 4)"
    unfolding r64_def
    by (rule trans [OF round_to_eval [where e = "-2" and m = "4503599627370496" and q = "1 / 2 ^ 54"]])
       (simp_all add: rne_def Let_def)
  then show ?thesis by (simp add: lit_def)
qed

lemma rnd_120: "Fin 2 * Fin (1 / 4) = Fin (1 / 2)"
proof -
  have "r64 (2 * (1 / 4)) = Fin (1 / 2)"
    unfolding r64_def
    by (rule trans [OF round_to_eval [where e = "-1" and m = "4503599627370496" and q = "1 / 2 ^ 53"]])
       (simp_all add: rne_def Let_def)
  then show ?thesis by (simp add: lit_def)
qed

lemma rnd_121: "Fin (- 1) + Fin (1 / 2) = Fin (- (1 / 2))"
proof -
  have "r64 ((- 1) + (1 / 2)) = Fin (- (1 / 2))"
    unfolding r64_def
    by (rule trans [OF round_to_eval [where e = "-1" and m = "-4503599627370496" and q = "1 / 2 ^ 53"]])
       (simp_all add: rne_def Let_def)
  then show ?thesis by (simp add: lit_def)
qed

lemma rnd_122: "f32 (Fin (- (1 / 2))) = Fin (- (1 / 2))"
proof -
  have "r32 ((- (1 / 2))) = Fin (- (1 / 2))"
    unfolding r32_def
    by (rule trans [OF round_to_eval [where e = "-1" and m = "-8388608" and q = "1 / 2 ^ 24"]])
       (simp_all add: rne_def Let_def)
  then show ?thesis by (simp add: lit_def)
qed

lemma rnd_123: "Fin (3 / 2) / Fin 2 = Fin (3 / 4)"
proof -
  have "r64 ((3 / 2) / 2) = Fin (3 / 4)"
    unfolding r64_def
    by (rule trans [OF round_to_eval [where e = "-1" and m = "6755399441055744" and q = "1 / 2 ^ 53"]])
       (simp_all add: rne_def Let_def)
  then show ?thesis by (simp add: lit_def)
qed

lemma rnd_124: "Fin 2 * Fin (3 / 4) = Fin (3 / 2)"
proof -
  have "r64 (2 * (3 / 4)) = Fin (3 / 2)"
    unfolding r64_def
    by (rule trans [OF round_to_eval [where e = "0" and m = "6755399441055744" and q = "1 / 2 ^ 52"]])
       (simp_all add: rne_def Let_def)
  then show ?thesis by (simp add: lit_def)
qed

lemma rnd_125: "Fin (- 1) + Fin (3 / 2) = Fin (1 / 2)"
proof -
  have "r64 ((- 1) + (3 / 2)) = Fin (1 / 2)"
    unfolding r64_def
    by (rule trans [OF round_to_eval [where e = "-1" and m = "4503599627370496" and q = "1 / 2 ^ 53"]])
       (simp_all add: rne_def Let_def)
  then show ?thesis by (simp add: lit_def)
qed

lemma rnd_126: "f32 (Fin (1 / 2)) = Fin (1 / 2)"
proof -
  have "r32 ((1 / 2)) = Fin (1 / 2)"
    unfolding r32_def
    by (rule trans [OF round_to_eval [where e = "-1" and m = "8388608" and q = "1 / 2 ^ 24"]])
       (simp_all add: rne_def Let_def)
  then show ?thesis by (simp add: lit_def)
qed

lemmas roundings =
  rnd_1 rnd_2 rnd_3 rnd_4 rnd_5 rnd_6 rnd_7 rnd_8 rnd_9 rnd_10 rnd_11 rnd_12
  rnd_13 rnd_14 rnd_15 rnd_16 rnd_17 rnd_18 rnd_19 rnd_20 rnd_21 rnd_22 rnd_23 rnd_24
  rnd_25 rnd_26 rnd_27 rnd_28 rnd_29 rnd_30 rnd_31 rnd_32 rnd_33 rnd_34 rnd_35 rnd_36
  rnd_37 rnd_38 rnd_39 rnd_40 rnd_41 rnd_42 rnd_43 rnd_44 rnd_45 rnd_46 rnd_47 rnd_48
  rnd_49 rnd_50 rnd_51 rnd_52 rnd_53 rnd_54 rnd_55 rnd_56 rnd_57 rnd_58 rnd_59 rnd_60
  rnd_61 rnd_62 rnd_63 rnd_64 rnd_65 rnd_66 rnd_67 rnd_68 rnd_69 rnd_70 rnd_71 rnd_72
  rnd_73 rnd_74 rnd_75 rnd_76 rnd_77 rnd_78 rnd_79 rnd_80 rnd_81 rnd_82 rnd_83 rnd_84
  rnd_85 rnd_86 rnd_87 rnd_88 rnd_89 rnd_90 rnd_91 rnd_92 rnd_93 rnd_94 rnd_95 rnd_96
  rnd_97 rnd_98 rnd_99 rnd_100 rnd_101 rnd_102 rnd_103 rnd_104 rnd_105 rnd_106 rnd_107 rnd_108
  rnd_109 rnd_110 rnd_111 rnd_112 rnd_113 rnd_114 rnd_115 rnd_116 rnd_117 rnd_118 rnd_119 rnd_120
  rnd_121 rnd_122 rnd_123 rnd_124 rnd_125 rnd_126

section \<open>Short runs of \<open>step\<close>\<close>

lemma step_one_substep:
  assumes "safeDt_of s = Fin q" "dt = Fin d" "lit 0.000001 = Fin t" "t < d" "q < d"
    and "\<not> isNaN (rd (T s) 45)" "Fin d - Fin q = Fin r1" "\<not> t < r1"
  shows "step dt random s =
    \<lparr> state = (euler_update (Fin q) (updateDiagnostics s))\<lparr> time := time s + dt \<rparr>,
      console = (if random < lit 0.01 then [Console_log] else []),
      outcome = Exhausted,
      substeps = [\<lparr> sub_dt = Fin q, sub_refreshed = updateDiagnostics s,
                    sub_updated = euler_update (Fin q) (updateDiagnostics s) \<rparr>] \<rparr>"
proof -
  have m: "Math_min (Fin d) (Fin q) = Fin q"
    using assms(5) by (simp add: Math_min_def)
  have "step_loop (Fin q) (Fin d) 0 s =
      \<lparr> final = euler_update (Fin q) (updateDiagnostics s), remaining = Fin r1, steps = 1,
        exit = Exhausted,
        taken = [\<lparr> sub_dt = Fin q, sub_refreshed = updateDiagnostics s,
                    sub_updated = euler_update (Fin q) (updateDiagnostics s) \<rparr>] \<rparr>"
    using assms(3,4,6,7,8) by (simp add: step_loop_continue step_loop_exhausted m)
  then show ?thesis
    using assms(1,2) by (simp add: step_unfold)
qed

lemma step_last_substep_short:
  assumes "safeDt_of s = Fin q" "dt = Fin d" "lit 0.000001 = Fin t" "t < d" "q < d"
    and "\<not> isNaN (rd (T s) 45)" "Fin d - Fin q = Fin r1" "t < r1" "r1 < q"
    and "Fin r1 - Fin r1 = Fin r2" "\<not> t < r2"
  shows "step dt random s =
    \<lparr> state = (euler_update (Fin r1) (updateDiagnostics
                 (euler_update (Fin q) (updateDiagnostics s))))\<lparr> time := time s + dt \<rparr>,
      console = (if random < lit 0.01 then [Console_log] else []),
      outcome = Exhausted,
      substeps = [\<lparr> sub_dt = Fin q, sub_refreshed = updateDiagnostics s,
                    sub_updated = euler_update (Fin q) (updateDiagnostics s) \<rparr>,
                  \<lparr> sub_dt = Fin r1,
                    sub_refreshed = updateDiagnostics (euler_update (Fin q) (updateDiagnostics s)),
                    sub_updated = euler_update (Fin r1) (updateDiagnostics
                      (euler_update (Fin q) (updateDiagnostics s))) \<rparr>] \<rparr>"
proof -
  have m: "Math_min (Fin d) (Fin q) = Fin q" "Math_min (Fin r1) (Fin q) = Fin r1"
    using assms(5,9) by (simp_all add: Math_min_def)
  have "step_loop (Fin q) (Fin d) 0 s =
      \<lparr> final = euler_update (Fin r1) (updateDiagnostics
                  (euler_update (Fin q) (updateDiagnostics s))),
        remaining = Fin r2, steps = 2, exit = Exhausted,
        taken = [\<lparr> sub_dt = Fin q, sub_refreshed = updateDiagnostics s,
                    sub_updated = euler_update (Fin q) (updateDiagnostics s) \<rparr>,
                  \<lparr> sub_dt = Fin r1,
                    sub_refreshed = updateDiagnostics (euler_update (Fin q) (updateDiagnostics s)),
                    sub_updated = euler_update (Fin r1) (updateDiagnostics
                      (euler_update (Fin q) (updateDiagnostics s))) \<rparr>] \<rparr>"
    using assms(3,4,6,7,8,10,11) by (simp add: step_loop_continue step_loop_exhausted m)
  then show ?thesis
    using assms(1,2) by (simp add: step_unfold)
qed





section \<open>The concrete engines\<close>

lemma constructed46_T45:
  assumes "EBM_constructor h 46 p = Inr s"
  shows "rd (T s) 45 = Fin (- (13756367 / 4194304))"
proof -
  note c = constructor_fields [OF assms]
  have "rd (x s) 45 = Fin (8206247 / 8388608)"
    by (simp add: c(7) rd_written roundings del: op_simps)
  then show ?thesis
    by (simp add: c(9) rd_written roundings del: op_simps)
qed

lemma safeDt_46:
  assumes "size_n s = 46" "D (params s) = lit 0.6"
  shows "safeDt_of s = Fin (1451747368191091 / 1152921504606846976)"
  using assms by (simp add: safeDt_of_def roundings del: op_simps)

lemma engine46_fields:
  "wf engine46" "size_n engine46 = 46" "params engine46 = DEFAULT_PARAMS"
  "time engine46 = Fin 0" "rd (T engine46) 45 = Fin (- (13756367 / 4194304))"
  "safeDt_of engine46 = Fin (1451747368191091 / 1152921504606846976)"
  "length (T engine46) = 46"
proof -
  note c = constructor_fields [OF engines_constructed(4)]
  show f: "wf engine46" "size_n engine46 = 46" "params engine46 = DEFAULT_PARAMS"
    "time engine46 = Fin 0"
    using c by simp_all
  show "rd (T engine46) 45 = Fin (- (13756367 / 4194304))"
    by (rule constructed46_T45 [OF engines_constructed(4)])
  show "safeDt_of engine46 = Fin (1451747368191091 / 1152921504606846976)"
    by (rule safeDt_46) (simp_all add: f DEFAULT_PARAMS_def)
  show "length (T engine46) = 46" using f by (simp add: wf_def)
qed

lemma engine46_NaN_A_fields:
  "wf engine46_NaN_A" "size_n engine46_NaN_A = 46"
  "params engine46_NaN_A = DEFAULT_PARAMS\<lparr> A := NaN \<rparr>"
  "time engine46_NaN_A = Fin 0" "rd (T engine46_NaN_A) 45 = Fin (- (13756367 / 4194304))"
  "safeDt_of engine46_NaN_A = Fin (1451747368191091 / 1152921504606846976)"
proof -
  note c = constructor_fields [OF engines_constructed(6)]
  show f: "wf engine46_NaN_A" "size_n engine46_NaN_A = 46"
    "params engine46_NaN_A = DEFAULT_PARAMS\<lparr> A := NaN \<rparr>" "time engine46_NaN_A = Fin 0"
    using c by simp_all
  show "rd (T engine46_NaN_A) 45 = Fin (- (13756367 / 4194304))"
    by (rule constructed46_T45 [OF engines_constructed(6)])
  show "safeDt_of engine46_NaN_A = Fin (1451747368191091 / 1152921504606846976)"
    by (rule safeDt_46) (simp_all add: f DEFAULT_PARAMS_def)
qed

lemma engine46_NaN_T45_fields:
  "rd (T engine46_NaN_T45) 45 = NaN" "time engine46_NaN_T45 = Fin 0"
  using engine46_fields(4,7) by (simp_all add: engine46_NaN_T45_def rd_def)

lemma tolerance: "lit 0.000001 = Fin (4722366482869645 / 4722366482869645213696)"
  by (simp add: roundings)

lemma step_engine46_NaN_A:
  "step (lit 0.002) (Fin (1 / 2)) engine46_NaN_A =
    \<lparr> state = (euler_update (Fin (854095641022603 / 1152921504606846976)) (updateDiagnostics
                 (euler_update (Fin (1451747368191091 / 1152921504606846976))
                    (updateDiagnostics engine46_NaN_A))))
               \<lparr> time := Fin (1152921504606847 / 576460752303423488) \<rparr>,
      console = [], outcome = Exhausted,
      substeps = [\<lparr> sub_dt = Fin (1451747368191091 / 1152921504606846976),
                    sub_refreshed = updateDiagnostics engine46_NaN_A,
                    sub_updated = euler_update (Fin (1451747368191091 / 1152921504606846976))
                      (updateDiagnostics engine46_NaN_A) \<rparr>,
                  \<lparr> sub_dt = Fin (854095641022603 / 1152921504606846976),
                    sub_refreshed = updateDiagnostics
                      (euler_update (Fin (1451747368191091 / 1152921504606846976))
                         (updateDiagnostics engine46_NaN_A)),
                    sub_updated = euler_update (Fin (854095641022603 / 1152921504606846976))
                      (updateDiagnostics
                        (euler_update (Fin (1451747368191091 / 1152921504606846976))
                           (updateDiagnostics engine46_NaN_A))) \<rparr>] \<rparr>"
  by (subst step_last_substep_short [where q = "1451747368191091 / 1152921504606846976"
        and d = "1152921504606847 / 576460752303423488"
        and t = "4722366482869645 / 4722366482869645213696"
        and ?r1.0 = "854095641022603 / 1152921504606846976" and ?r2.0 = 0])
     (simp_all add: engine46_NaN_A_fields roundings del: op_simps)

section \<open>The arrays after each operation, entry by entry\<close>

lemma r32_zero [simp]: "r32 0 = Fin 0"
  by (simp add: r32_def round_to_def)

lemma r64_zero [simp]: "r64 0 = Fin 0"
  by (simp add: r64_def round_to_def)

lemma computeTransport_flux:
  assumes "wf s"
  shows "rd (fluxBuffer (computeTransport s)) 0 = Fin 0"
    and "rd (fluxBuffer (computeTransport s)) (size_n s) = Fin 0"
    and "1 \<le> i \<Longrightarrow> i < size_n s \<Longrightarrow>
      rd (fluxBuffer (computeTransport s)) i =
        f32 ((- D (params s)) *
             (Fin 1 - (Fin (- 1) + Fin (real i) * (Fin 2 / Fin (real (size_n s)))) *
                      (Fin (- 1) + Fin (real i) * (Fin 2 / Fin (real (size_n s))))) *
             ((rd (T s) i - rd (T s) (i - 1)) / (Fin 2 / Fin (real (size_n s)))))"
  using assms
  by (simp_all add: computeTransport_eq Let_def wf_def rd_def store_def nth_list_update
        del: divide_number.simps)

lemma computeTransport_transport:
  assumes "wf s" "i < size_n s"
  shows "rd (transport (computeTransport s)) i =
     f32 ((- (rd (fluxBuffer (computeTransport s)) (i + 1) -
              rd (fluxBuffer (computeTransport s)) i)) / (Fin 2 / Fin (real (size_n s))))"
  using assms
  by (simp add: computeTransport_eq Let_def wf_def rd_written del: divide_number.simps)

lemma flux_differences:
  assumes "wf s"
  shows "(\<Sum>i<size_n s. real_of (rd (fluxBuffer (computeTransport s)) (i + 1)) -
                       real_of (rd (fluxBuffer (computeTransport s)) i)) = 0"
  using computeTransport_flux(1,2) [OF assms]
    sum_lessThan_telescope [of "\<lambda>i. real_of (rd (fluxBuffer (computeTransport s)) i)" "size_n s"]
  by simp

lemma updateDiagnostics_entries:
  assumes "wf s" "i < size_n s"
  shows "rd (albedo (updateDiagnostics s)) i =
      f32 (if rd (T s) i < iceThreshold (params s)
           then iceAlbedo (params s) else oceanAlbedo (params s))"
    and "rd (ASR (updateDiagnostics s)) i =
      f32 (rd (insol s) i * (Fin 1 - rd (albedo (updateDiagnostics s)) i))"
    and "rd (OLR (updateDiagnostics s)) i = f32 (A (params s) + B (params s) * rd (T s) i)"
  using assms
  by (simp_all add: updateDiagnostics_albedo updateDiagnostics_ASR updateDiagnostics_OLR
        rd_written wf_def)

lemma initGrid_entries:
  assumes "length (x s) = size_n s" "length (lat s) = size_n s" "i < size_n s"
  shows "rd (x (initGrid h s)) i =
      f32 (Fin (- 1) + Fin 2 * ((Fin (real i) + lit 0.5) / Fin (real (size_n s))))"
    and "rd (lat (initGrid h s)) i =
      f32 (Math_asin h (Fin (- 1) + Fin 2 * ((Fin (real i) + lit 0.5) / Fin (real (size_n s)))) *
           (Fin 180 / Math_PI))"
  using assms by (simp_all add: initGrid_eq rd_written)

lemma euler_update_entries:
  assumes "wf u" "i < size_n u"
  shows "rd (T (euler_update d u)) i =
    f32 (rd (T u) i + ((rd (ASR u) i - rd (OLR u) i + rd (transport u) i) / heatCapacity) * d)"
  using assms by (simp add: euler_update_eq wf_def rd_written)

section \<open>More concrete engines\<close>

lemma engine2_fields:
  "wf engine2" "size_n engine2 = 2" "params engine2 = DEFAULT_PARAMS"
  using constructor_fields [OF engines_constructed(2)] by simp_all

lemma engine3_fields:
  "wf engine3" "size_n engine3 = 3" "params engine3 = DEFAULT_PARAMS"
  using constructor_fields [OF engines_constructed(3)] by simp_all

lemma engine1_fields:
  "wf engine1" "size_n engine1 = 1" "params engine1 = DEFAULT_PARAMS" "time engine1 = Fin 0"
  using constructor_fields [OF engines_constructed(1)] by simp_all

lemma engine2_ramp_fields:
  "wf engine2_ramp" "size_n engine2_ramp = 2" "params engine2_ramp = DEFAULT_PARAMS"
  "T engine2_ramp = [Fin 0, Fin 1]"
  using engine2_fields by (simp_all add: engine2_ramp_def wf_def)

lemma engine2_ramp_transport:
  "rd (fluxBuffer (computeTransport engine2_ramp)) 0 = Fin 0"
  "rd (fluxBuffer (computeTransport engine2_ramp)) 1 = Fin (- (5033165 / 8388608))"
  "rd (fluxBuffer (computeTransport engine2_ramp)) 2 = Fin 0"
  "rd (transport (computeTransport engine2_ramp)) 0 = Fin (5033165 / 8388608)"
  "rd (transport (computeTransport engine2_ramp)) 1 = Fin (- (5033165 / 8388608))"
proof -
  note f = engine2_ramp_fields
  show 0: "rd (fluxBuffer (computeTransport engine2_ramp)) 0 = Fin 0"
    using computeTransport_flux(1) [OF f(1)] .
  show 2: "rd (fluxBuffer (computeTransport engine2_ramp)) 2 = Fin 0"
    using computeTransport_flux(2) [OF f(1)] by (simp add: f)
  show 1: "rd (fluxBuffer (computeTransport engine2_ramp)) 1 = Fin (- (5033165 / 8388608))"
    using computeTransport_flux(3) [OF f(1), of 1]
    by (simp add: f rd_def DEFAULT_PARAMS_def roundings del: op_simps)
  show "rd (transport (computeTransport engine2_ramp)) 0 = Fin (5033165 / 8388608)"
    using computeTransport_transport [OF f(1), of 0] 0 1
    by (simp add: f roundings del: op_simps)
  show "rd (transport (computeTransport engine2_ramp)) 1 = Fin (- (5033165 / 8388608))"
    using computeTransport_transport [OF f(1), of 1] 1 2 [unfolded numeral_2_eq_2]
    by (simp add: f roundings del: op_simps)
qed

lemma list2_rd: "length a = 2 \<Longrightarrow> a = [rd a 0, rd a 1]"
  by (cases a; cases "tl a") (auto simp: rd_def)

lemma list3_rd: "length a = 3 \<Longrightarrow> a = [rd a 0, rd a 1, rd a 2]"
  by (cases a; cases "tl a"; cases "tl (tl a)") (auto simp: rd_def)

lemma engine3_ramp_fields:
  "wf engine3_ramp" "size_n engine3_ramp = 3" "params engine3_ramp = DEFAULT_PARAMS"
  "T engine3_ramp = [Fin 0, Fin 3, Fin 1]"
  using engine3_fields by (simp_all add: engine3_ramp_def wf_def)

lemma engine3_ramp_flux:
  "rd (fluxBuffer (computeTransport engine3_ramp)) 0 = Fin 0"
  "rd (fluxBuffer (computeTransport engine3_ramp)) 1 = Fin (- (5033165 / 2097152))"
  "rd (fluxBuffer (computeTransport engine3_ramp)) 2 = Fin (13421773 / 8388608)"
  "rd (fluxBuffer (computeTransport engine3_ramp)) 3 = Fin 0"
proof -
  note f = engine3_ramp_fields
  show "rd (fluxBuffer (computeTransport engine3_ramp)) 0 = Fin 0"
    using computeTransport_flux(1) [OF f(1)] .
  show "rd (fluxBuffer (computeTransport engine3_ramp)) 3 = Fin 0"
    using computeTransport_flux(2) [OF f(1)] by (simp add: f)
  show "rd (fluxBuffer (computeTransport engine3_ramp)) 1 = Fin (- (5033165 / 2097152))"
    using computeTransport_flux(3) [OF f(1), of 1]
    by (simp add: f rd_def DEFAULT_PARAMS_def roundings del: op_simps)
  show "rd (fluxBuffer (computeTransport engine3_ramp)) 2 = Fin (13421773 / 8388608)"
    using computeTransport_flux(3) [OF f(1), of 2]
    by (simp add: f rd_def DEFAULT_PARAMS_def roundings del: op_simps)
qed

lemma engine3_ramp_transport:
  "transport (computeTransport engine3_ramp) =
     [Fin (15099495 / 4194304), Fin (- 6), Fin (5033165 / 2097152)]"
proof -
  note f = engine3_ramp_fields and fl = engine3_ramp_flux
  have "rd (transport (computeTransport engine3_ramp)) 0 = Fin (15099495 / 4194304)"
    using computeTransport_transport [OF f(1), of 0] fl(1,2)
    by (simp add: f roundings del: op_simps)
  moreover have "rd (transport (computeTransport engine3_ramp)) 1 = Fin (- 6)"
    using computeTransport_transport [OF f(1), of 1] fl(2) fl(3) [unfolded numeral_2_eq_2]
    by (simp add: f roundings del: op_simps)
  moreover have "rd (transport (computeTransport engine3_ramp)) 2 = Fin (5033165 / 2097152)"
    using computeTransport_transport [OF f(1), of 2] fl(3,4)
    by (simp add: f roundings del: op_simps)
  moreover have "length (transport (computeTransport engine3_ramp)) = 3"
    using f(1,2) by (simp add: wf_def)
  ultimately show ?thesis using list3_rd [of "transport (computeTransport engine3_ramp)"]
    by simp
qed

lemma engine2_huge_fields:
  "wf engine2_huge" "size_n engine2_huge = 2" "D (params engine2_huge) = Fin 2"
  "T engine2_huge = [Fin 170141183460469231731687303715884105728,
     Fin (- 170141183460469231731687303715884105728)]"
  using engine2_fields by (simp_all add: engine2_huge_def wf_def)

lemma engine2_huge_transport:
  "rd (fluxBuffer (computeTransport engine2_huge)) 1 = PosInf"
  "transport (computeTransport engine2_huge) = [NegInf, PosInf]"
proof -
  note f = engine2_huge_fields
  have 0: "rd (fluxBuffer (computeTransport engine2_huge)) 0 = Fin 0"
    using computeTransport_flux(1) [OF f(1)] .
  have 2: "rd (fluxBuffer (computeTransport engine2_huge)) 2 = Fin 0"
    using computeTransport_flux(2) [OF f(1)] by (simp add: f)
  show 1: "rd (fluxBuffer (computeTransport engine2_huge)) 1 = PosInf"
    using computeTransport_flux(3) [OF f(1), of 1]
    by (simp add: f rd_def roundings del: op_simps)
  have "rd (transport (computeTransport engine2_huge)) 0 = NegInf"
    using computeTransport_transport [OF f(1), of 0] 0 1
    by (simp add: f minus_number_def roundings del: op_simps)
  moreover have "rd (transport (computeTransport engine2_huge)) 1 = PosInf"
    using computeTransport_transport [OF f(1), of 1] 1 2 [unfolded numeral_2_eq_2]
    by (simp add: f minus_number_def roundings del: op_simps)
  moreover have "length (transport (computeTransport engine2_huge)) = 2"
    using f(1,2) by (simp add: wf_def)
  ultimately show "transport (computeTransport engine2_huge) = [NegInf, PosInf]"
    using list2_rd [of "transport (computeTransport engine2_huge)"] by simp
qed

lemma engine2_cold_fields:
  "wf engine2_cold" "size_n engine2_cold = 2" "params engine2_cold = DEFAULT_PARAMS"
  "T engine2_cold = [Fin (- 10), Fin (- 11)]" "insol engine2_cold = [Fin 100, Fin 200]"
  using engine2_fields by (simp_all add: engine2_cold_def wf_def)

lemma engine2_cold_diagnostics:
  "rd (albedo (updateDiagnostics engine2_cold)) 0 = Fin (5033165 / 16777216)"
  "rd (albedo (updateDiagnostics engine2_cold)) 1 = Fin (5200937 / 8388608)"
  "rd (ASR (updateDiagnostics engine2_cold)) 0 = Fin 70"
  "rd (ASR (updateDiagnostics engine2_cold)) 1 = Fin 76"
  "rd (OLR (updateDiagnostics engine2_cold)) 0 = Fin 190"
  "rd (OLR (updateDiagnostics engine2_cold)) 1 = Fin 188"
proof -
  note f = engine2_cold_fields
  note e0 = updateDiagnostics_entries [OF f(1), of 0]
  note e1 = updateDiagnostics_entries [OF f(1), of 1]
  show a0: "rd (albedo (updateDiagnostics engine2_cold)) 0 = Fin (5033165 / 16777216)"
    using e0(1) by (simp add: f rd_def DEFAULT_PARAMS_def roundings del: op_simps)
  show a1: "rd (albedo (updateDiagnostics engine2_cold)) 1 = Fin (5200937 / 8388608)"
    using e1(1) by (simp add: f rd_def DEFAULT_PARAMS_def roundings del: op_simps)
  show "rd (ASR (updateDiagnostics engine2_cold)) 0 = Fin 70"
    using e0(2) a0 by (simp add: f rd_def roundings del: op_simps)
  show "rd (ASR (updateDiagnostics engine2_cold)) 1 = Fin 76"
    using e1(2) a1 by (simp add: f rd_def roundings del: op_simps)
  show "rd (OLR (updateDiagnostics engine2_cold)) 0 = Fin 190"
    using e0(3) by (simp add: f rd_def DEFAULT_PARAMS_def roundings del: op_simps)
  show "rd (OLR (updateDiagnostics engine2_cold)) 1 = Fin 188"
    using e1(3) by (simp add: f rd_def DEFAULT_PARAMS_def roundings del: op_simps)
qed

lemma engine_2p25_grid:
  "size_n engine_2p25 = 33554432"
  "rd (x engine_2p25) 0 = Fin (- 1)"
  "rd (x engine_2p25) 1 = Fin (- (8388607 / 8388608))"
  "rd (x engine_2p25) 2 = Fin (- (8388607 / 8388608))"
  "rd (x engine_2p25) 33554431 = Fin 1"
proof -
  note c = constructor_fields [OF engines_constructed(5)]
  show "size_n engine_2p25 = 33554432" using c(2) by simp
  show "rd (x engine_2p25) 0 = Fin (- 1)"
    by (simp add: c(7) rd_written roundings del: op_simps)
  show "rd (x engine_2p25) 1 = Fin (- (8388607 / 8388608))"
    by (simp add: c(7) rd_written roundings del: op_simps)
  show "rd (x engine_2p25) 2 = Fin (- (8388607 / 8388608))"
    by (simp add: c(7) rd_written roundings del: op_simps)
  show "rd (x engine_2p25) 33554431 = Fin 1"
    by (simp add: c(7) rd_written roundings del: op_simps)
qed

lemma engine2_grid:
  "rd (x engine2) 0 = Fin (- (1 / 2))" "rd (x engine2) 1 = Fin (1 / 2)"
  "rd (lat engine2) 0 = f32 (asin_rounded (Fin (- (1 / 2))) * (Fin 180 / Math_PI))"
proof -
  note c = constructor_fields [OF engines_constructed(2)]
  show "rd (x engine2) 0 = Fin (- (1 / 2))"
    by (simp add: c(7) rd_written roundings del: op_simps)
  show "rd (x engine2) 1 = Fin (1 / 2)"
    by (simp add: c(7) rd_written roundings del: op_simps)
  show "rd (lat engine2) 0 = f32 (asin_rounded (Fin (- (1 / 2))) * (Fin 180 / Math_PI))"
    by (simp add: c(8) rd_written sample_host_def roundings del: op_simps)
qed

section \<open>A refresh of refreshed diagnostics\<close>

lemma written_idem [simp]: "written lo hi f (written lo hi f a) = written lo hi f a"
  by (rule nth_equalityI) simp_all

lemma flux_idem:
  "store (store (written lo n ff (store (store (written lo n ff a) 0 z) n z)) 0 z) n z =
   store (store (written lo n ff a) 0 z) n z"
proof (rule nth_equalityI)
  show "length (store (store (written lo n ff (store (store (written lo n ff a) 0 z) n z)) 0 z) n z) =
    length (store (store (written lo n ff a) 0 z) n z)" by simp
next
  fix i assume "i < length (store (store (written lo n ff (store (store (written lo n ff a) 0 z) n z)) 0 z) n z)"
  then have i: "i < length a" by simp
  then show "store (store (written lo n ff (store (store (written lo n ff a) 0 z) n z)) 0 z) n z ! i =
    store (store (written lo n ff a) 0 z) n z ! i"
    by (cases "i = n"; cases "i = 0") (simp_all add: store_def)
qed

lemma updateDiagnostics_idem:
  "updateDiagnostics (updateDiagnostics s) = updateDiagnostics s"
proof -
  define u where "u = updateDiagnostics s"
  have fr: "params u = params s" "size_n u = size_n s" "T u = T s" "insol u = insol s"
    by (simp_all add: u_def)
  have a: "albedo (updateDiagnostics u) = albedo u"
    unfolding updateDiagnostics_albedo [of u] fr
    by (simp add: u_def updateDiagnostics_albedo)
  have r: "ASR (updateDiagnostics u) = ASR u"
    unfolding updateDiagnostics_ASR [of u] a fr
    by (simp add: u_def updateDiagnostics_ASR)
  have o: "OLR (updateDiagnostics u) = OLR u"
    unfolding updateDiagnostics_OLR [of u] fr
    by (simp add: u_def updateDiagnostics_OLR)
  have f: "fluxBuffer (updateDiagnostics u) = fluxBuffer u"
    by (simp add: updateDiagnostics_eq computeTransport_eq Let_def fr del: divide_number.simps)
       (simp add: u_def updateDiagnostics_eq computeTransport_eq Let_def flux_idem
          del: divide_number.simps)
  have t: "transport (updateDiagnostics u) = transport u"
    by (simp add: updateDiagnostics_eq computeTransport_eq Let_def fr del: divide_number.simps)
       (simp add: u_def updateDiagnostics_eq computeTransport_eq Let_def flux_idem
          del: divide_number.simps)
  have "updateDiagnostics u = u\<lparr> albedo := albedo (updateDiagnostics u),
      ASR := ASR (updateDiagnostics u), OLR := OLR (updateDiagnostics u),
      fluxBuffer := fluxBuffer (updateDiagnostics u),
      transport := transport (updateDiagnostics u) \<rparr>"
    by (simp add: updateDiagnostics_eq computeTransport_eq Let_def)
  then show ?thesis unfolding a r o f t u_def [symmetric] by simp
qed

lemma constructor_refreshed:
  assumes "EBM_constructor h n p = Inr s"
  shows "updateDiagnostics s = s"
  using assms
  by (auto simp: constructor_eq initState_eq updateDiagnostics_idem split: if_splits)

section \<open>Runs of \<open>step\<close> on 46 bands\<close>

lemma step_loop_taken_frame:
  "e \<in> set (taken (step_loop q rem k s)) \<Longrightarrow>
   wf (sub_refreshed e) = wf s \<and> size_n (sub_refreshed e) = size_n s"
proof (induction q rem k s rule: step_loop.induct)
  case (1 q rem k s)
  show ?case
  proof (cases rule: step_loop_cases [where rem = rem and k = k and s = s])
    case exhausted
    with "1.prems" show ?thesis by (simp add: step_loop_exhausted)
  next
    case guard
    with "1.prems" show ?thesis by (simp add: step_loop_NaN_guard)
  next
    case ceiling
    with "1.prems" show ?thesis by (auto simp: step_loop_ceiling)
  next
    case continue
    with "1.prems" "1.IH" [of "Math_min rem q" "updateDiagnostics s"]
    show ?thesis by (auto simp: step_loop_continue)
  qed
qed

lemma step_substep_frame:
  assumes "j < length (substeps (step dt random s))"
  shows "wf (sub_refreshed (substeps (step dt random s) ! j)) = wf s"
    and "size_n (sub_refreshed (substeps (step dt random s) ! j)) = size_n s"
  using assms step_loop_taken_frame [of "substeps (step dt random s) ! j" "safeDt_of s" dt 0 s]
  by (simp_all add: step_substeps)

lemma step_two_millis:
  assumes "safeDt_of s = Fin (1451747368191091 / 1152921504606846976)"
    and "\<not> isNaN (rd (T s) 45)"
  shows "step (lit 0.002) (Fin (1 / 2)) s =
    \<lparr> state = (euler_update (Fin (854095641022603 / 1152921504606846976)) (updateDiagnostics
                 (euler_update (Fin (1451747368191091 / 1152921504606846976))
                    (updateDiagnostics s))))
               \<lparr> time := time s + Fin (1152921504606847 / 576460752303423488) \<rparr>,
      console = [], outcome = Exhausted,
      substeps = [\<lparr> sub_dt = Fin (1451747368191091 / 1152921504606846976),
                    sub_refreshed = updateDiagnostics s,
                    sub_updated = euler_update (Fin (1451747368191091 / 1152921504606846976))
                      (updateDiagnostics s) \<rparr>,
                  \<lparr> sub_dt = Fin (854095641022603 / 1152921504606846976),
                    sub_refreshed = updateDiagnostics
                      (euler_update (Fin (1451747368191091 / 1152921504606846976))
                         (updateDiagnostics s)),
                    sub_updated = euler_update (Fin (854095641022603 / 1152921504606846976))
                      (updateDiagnostics
                        (euler_update (Fin (1451747368191091 / 1152921504606846976))
                           (updateDiagnostics s))) \<rparr>] \<rparr>"
  by (subst step_last_substep_short [where q = "1451747368191091 / 1152921504606846976"
        and d = "1152921504606847 / 576460752303423488"
        and t = "4722366482869645 / 4722366482869645213696"
        and ?r1.0 = "854095641022603 / 1152921504606846976" and ?r2.0 = 0])
     (simp_all add: assms roundings del: op_simps)

lemma step_short_of_dt:
  assumes "safeDt_of s = Fin (1451747368191091 / 1152921504606846976)"
    and "\<not> isNaN (rd (T s) 45)"
  shows "step (lit 0.0012597) (Fin (1 / 2)) s =
    \<lparr> state = (euler_update (Fin (1451747368191091 / 1152921504606846976))
                 (updateDiagnostics s))
               \<lparr> time := time s + Fin (5809340877412981 / 4611686018427387904) \<rparr>,
      console = [], outcome = Exhausted,
      substeps = [\<lparr> sub_dt = Fin (1451747368191091 / 1152921504606846976),
                    sub_refreshed = updateDiagnostics s,
                    sub_updated = euler_update (Fin (1451747368191091 / 1152921504606846976))
                      (updateDiagnostics s) \<rparr>] \<rparr>"
  by (subst step_one_substep [where q = "1451747368191091 / 1152921504606846976"
        and d = "5809340877412981 / 4611686018427387904"
        and t = "4722366482869645 / 4722366482869645213696"
        and ?r1.0 = "2351404648617 / 4611686018427387904"])
     (simp_all add: assms roundings del: op_simps)

section \<open>The claims\<close>

text \<open>
  C1 (as stated). Two calls of \<open>step\<close> with a positive \<open>dt\<close> after which \<open>time\<close> has not
  increased by \<open>dt\<close>. A 46-band engine whose \<open>T[45]\<close> is not-a-number, advanced by
  \<open>dt = 0.5\<close>: the NaN check returns from \<open>step\<close> before \<open>time\<close> is incremented, and
  \<open>time\<close> is still 0. A 46-band engine whose \<open>time\<close> is \<open>2 ^ 53\<close>, advanced by \<open>dt = 1\<close>:
  however the loop ends, \<open>time\<close> is \<open>2 ^ 53\<close> afterwards, because the double nearest to
  \<open>2 ^ 53 + 1\<close> is \<open>2 ^ 53\<close>.
\<close>

theorem time_not_advanced:
  "outcome (step (Fin (1 / 2)) (Fin (1 / 2)) engine46_NaN_T45) = NaN_guard \<and>
   time engine46_NaN_T45 = Fin 0 \<and>
   time (state (step (Fin (1 / 2)) (Fin (1 / 2)) engine46_NaN_T45)) = Fin 0 \<and>
   time engine46_NaN_T45 + Fin (1 / 2) = Fin (1 / 2) \<and>
   time engine46_late = Fin 9007199254740992 \<and>
   time (state (step (Fin 1) (Fin (1 / 2)) engine46_late)) = Fin 9007199254740992"
proof -
  have "step (Fin (1 / 2)) (Fin (1 / 2)) engine46_NaN_T45 =
    \<lparr> state = updateDiagnostics engine46_NaN_T45, console = [Console_error],
      outcome = NaN_guard, substeps = [] \<rparr>"
    by (rule step_NaN_guard) (simp_all add: engine46_NaN_T45_fields roundings)
  moreover have "time engine46_late = Fin 9007199254740992"
    by (simp add: engine46_late_def)
  moreover from this
  have "time (state (step (Fin 1) (Fin (1 / 2)) engine46_late)) = Fin 9007199254740992"
    by (simp add: step_time roundings del: op_simps)
  ultimately show ?thesis
    by (simp add: engine46_NaN_T45_fields roundings del: op_simps)
qed

text \<open>
  C1 (amended). A call of \<open>step\<close> that returns through the NaN check leaves \<open>time\<close> as it
  was, and that is the only call that logs an error. Every other call, also one that
  the sub-step ceiling cut short, replaces \<open>time\<close> by the double sum \<open>time + dt\<close>, that
  is by the double nearest to the exact sum: an increase by exactly \<open>dt\<close> when that sum
  is a double.
\<close>

theorem time_accumulator:
  "time (state (step dt random s)) =
     (if outcome (step dt random s) = NaN_guard then time s else time s + dt) \<and>
   (outcome (step dt random s) = NaN_guard \<longleftrightarrow>
      Console_error \<in> set (console (step dt random s))) \<and>
   (\<forall>a d. outcome (step dt random s) \<noteq> NaN_guard \<and> time s = Fin a \<and> dt = Fin d \<longrightarrow>
      time (state (step dt random s)) = r64 (a + d))"
  by (auto simp: step_time step_console)

theorem time_accumulator_witness:
  "outcome (step (lit 0.002) (Fin (1 / 2)) engine46) = Exhausted \<and>
   time engine46 = Fin 0 \<and>
   lit 0.002 = Fin (1152921504606847 / 576460752303423488) \<and>
   time (state (step (lit 0.002) (Fin (1 / 2)) engine46)) =
     Fin (1152921504606847 / 576460752303423488)"
  using time_accumulator [of "lit 0.002" "Fin (1 / 2)" engine46]
    step_two_millis [of engine46]
  by (simp add: engine46_fields roundings del: op_simps)




end
